theory Spec2Isabelle
  imports
    Main
    "HOL-Library.Word"
    "HOL-Library.Char_ord"
    "HOL-Library.List_Lexorder"
    "HOL-Library.Multiset"
begin

section \<open>Common manifests asset (pkg/asset/manifests/operators.go)\<close>

text \<open>
  A shallow embedding of the Go file \<^verbatim>\<open>pkg/asset/manifests/operators.go\<close>.
  Go strings and byte slices are \<^typ>\<open>string\<close> (lists of bytes), Go's 64-bit
  \<^verbatim>\<open>int\<close> and \<^verbatim>\<open>int64\<close> are \<^typ>\<open>64 word\<close> read through \<^const>\<open>sint\<close>,
  an \<^verbatim>\<open>error\<close> return is a value of the datatype \<open>error\<close>, and a run-time panic
  is a value of the datatype \<open>panic\<close>, so that every way of leaving a function is a
  branch of its model.
\<close>

subsection \<open>Errors and panics\<close>

type_synonym go_int = "64 word"

datatype error =
    Err string
  | Wrap error string

datatype panic =
    NilDereference
  | MakeSliceLenOutOfRange
  | NegativeRepeatCount
  | TemplatePanic error

text \<open>\<^verbatim>\<open>errors.Wrap(err, msg)\<close> for a non-nil \<^verbatim>\<open>err\<close>.\<close>

definition errors_Wrap :: "error \<Rightarrow> string \<Rightarrow> error" where
  "errors_Wrap e msg = Wrap e msg"

subsection \<open>The Go library functions on strings that the file calls\<close>

text \<open>\<^verbatim>\<open>strings.HasPrefix\<close>, as a scan of the two strings.\<close>

fun HasPrefix :: "string \<Rightarrow> string \<Rightarrow> bool" where
  "HasPrefix s [] = True"
| "HasPrefix [] (p # ps) = False"
| "HasPrefix (c # cs) (p # ps) = (c = p \<and> HasPrefix cs ps)"

text \<open>
  \<^verbatim>\<open>strings.Repeat(s, count)\<close>: panics on a negative count, otherwise \<^verbatim>\<open>count\<close>
  copies of \<^verbatim>\<open>s\<close>.
\<close>

definition Repeat :: "string \<Rightarrow> go_int \<Rightarrow> panic + string" where
  "Repeat s n =
     (if sint n < 0 then Inl NegativeRepeatCount
      else Inr (concat (replicate (nat (sint n)) s)))"

text \<open>
  \<^verbatim>\<open>strings.Replace(s, old, new, -1)\<close> for a non-empty \<^verbatim>\<open>old\<close>: the occurrences of
  \<^verbatim>\<open>old\<close> are found from the left without overlap, and each is replaced. The file
  calls it with \<^verbatim>\<open>old = "\n"\<close> only; for an empty \<^verbatim>\<open>old\<close> (where Go inserts
  \<^verbatim>\<open>new\<close> around every UTF-8 sequence) the model returns \<^verbatim>\<open>s\<close> unchanged and is
  not used.
\<close>

fun ReplaceAll :: "string \<Rightarrow> string \<Rightarrow> string \<Rightarrow> string" where
  "ReplaceAll [] old new = []"
| "ReplaceAll (c # cs) old new =
     (if old \<noteq> [] \<and> HasPrefix (c # cs) old
      then new @ ReplaceAll (drop (length old) (c # cs)) old new
      else c # ReplaceAll cs old new)"

text \<open>\<^verbatim>\<open>strings.HasSuffix\<close> and \<^verbatim>\<open>strings.TrimSuffix\<close>.\<close>

definition HasSuffix :: "string \<Rightarrow> string \<Rightarrow> bool" where
  "HasSuffix s suffix =
     (length suffix \<le> length s \<and> drop (length s - length suffix) s = suffix)"

definition TrimSuffix :: "string \<Rightarrow> string \<Rightarrow> string" where
  "TrimSuffix s suffix =
     (if HasSuffix s suffix then take (length s - length suffix) s else s)"

subsection \<open>The template helper functions\<close>

text \<open>
  \<^verbatim>\<open>
  func indent(indention int, v string) string {
      newline := "\n" + strings.Repeat(" ", indention)
      return strings.Replace(v, "\n", newline, -1)
  }
  \<close>
\<close>

definition indent :: "go_int \<Rightarrow> string \<Rightarrow> panic + string" where
  "indent indention v =
     (case Repeat '' '' indention of
        Inl p \<Rightarrow> Inl p
      | Inr spaces \<Rightarrow>
          (let newline = [CHR 0x0A] @ spaces
           in Inr (ReplaceAll v [CHR 0x0A] newline)))"

text \<open>The \<^verbatim>\<open>add\<close> entry of \<^verbatim>\<open>customTmplFuncs\<close>: machine addition of two ints.\<close>

definition add :: "go_int \<Rightarrow> go_int \<Rightarrow> go_int" where
  "add i j = i + j"

subsection \<open>The Go library functions on paths that the file calls\<close>

text \<open>
  \<^verbatim>\<open>path/filepath\<close> on a Unix system, where the separator is \<^verbatim>\<open>/\<close> and there are no
  volume names. \<open>split_sep\<close> cuts a path at every separator and \<open>join_sep\<close> puts one
  separator between two consecutive elements (\<^verbatim>\<open>strings.Join(elem, "/")\<close>).
\<close>

fun split_sep :: "string \<Rightarrow> string list" where
  "split_sep [] = [[]]"
| "split_sep (c # cs) =
     (if c = CHR ''/'' then [] # split_sep cs
      else (case split_sep cs of
              [] \<Rightarrow> [[c]]
            | e # es \<Rightarrow> (c # e) # es))"

fun join_sep :: "string list \<Rightarrow> string" where
  "join_sep [] = []"
| "join_sep [e] = e"
| "join_sep (e # e' # es) = e @ ''/'' @ join_sep (e' # es)"

text \<open>
  \<^verbatim>\<open>filepath.Clean\<close>, by its documented rules: separators are merged, every \<^verbatim>\<open>.\<close>
  element is dropped, an inner \<^verbatim>\<open>..\<close> element removes the element before it, a
  \<^verbatim>\<open>..\<close> element that begins a rooted path is dropped, and the empty result is
  \<^verbatim>\<open>.\<close>. \<open>out\<close> is the output so far, last element first.
\<close>

definition clean_step :: "bool \<Rightarrow> string list \<Rightarrow> string \<Rightarrow> string list" where
  "clean_step rooted out e =
     (if e = [] \<or> e = ''.'' then out
      else if e = ''..'' then
        (if out \<noteq> [] \<and> hd out \<noteq> ''..'' then tl out
         else if \<not> rooted then ''..'' # out
         else out)
      else e # out)"

definition Clean :: "string \<Rightarrow> string" where
  "Clean path =
     (if path = [] then ''.''
      else
        (let rooted = (hd path = CHR ''/'');
             out = rev (foldl (clean_step rooted) [] (split_sep path));
             s = (if rooted then ''/'' else []) @ join_sep out
         in if s = [] then ''.'' else s))"

text \<open>
  \<^verbatim>\<open>filepath.Join\<close>: the elements from the first non-empty one on are joined with
  separators and the result is cleaned; with no non-empty element the result is empty.
\<close>

definition Join :: "string list \<Rightarrow> string" where
  "Join elem =
     (case dropWhile (\<lambda>e. e = []) elem of
        [] \<Rightarrow> []
      | e # es \<Rightarrow> Clean (join_sep (e # es)))"

text \<open>
  \<^verbatim>\<open>filepath.Base\<close>: the last element of the path, after the trailing separators are
  removed; \<^verbatim>\<open>.\<close> for the empty path and \<^verbatim>\<open>/\<close> for a path of separators only.
\<close>

definition Base :: "string \<Rightarrow> string" where
  "Base path =
     (if path = [] then ''.''
      else
        (let stripped = rev (dropWhile (\<lambda>c. c = CHR ''/'') (rev path));
             last_elem = rev (takeWhile (\<lambda>c. c \<noteq> CHR ''/'') (rev stripped))
         in if last_elem = [] then ''/'' else last_elem))"

text \<open>
  \<^verbatim>\<open>fmt.Sprintf("%d", i)\<close> for the index \<^verbatim>\<open>i\<close> of a slice, which is never negative:
  its decimal digits.
\<close>

definition digit_char :: "nat \<Rightarrow> char" where
  "digit_char d = char_of (48 + d)"

fun Sprintf_d :: "nat \<Rightarrow> string" where
  "Sprintf_d n =
     (if n < 10 then [digit_char n]
      else Sprintf_d (n div 10) @ [digit_char (n mod 10)])"

declare Sprintf_d.simps [simp del]

subsection \<open>Data model\<close>

text \<open>\<^verbatim>\<open>asset.File\<close>: a path and the bytes of the file.\<close>

record File =
  Filename :: string
  Data :: string

type_synonym genericData = "string \<rightharpoonup> string"

text \<open>
  Modelled from the spec: the type \<^verbatim>\<open>configurationObject\<close> and the function
  \<^verbatim>\<open>configMap\<close> are declared in another file of the package. The spec describes
  the status record as a mapping of string keys to string values with embedded
  metadata: a kind, a name and a namespace-like grouping.
\<close>

record configurationObject =
  Kind :: string
  MetadataName :: string
  MetadataNamespace :: string
  ObjectData :: genericData

definition configMap :: "string \<Rightarrow> string \<Rightarrow> genericData \<Rightarrow> configurationObject" where
  "configMap namespace name data =
     \<lparr>Kind = ''ConfigMap'', MetadataName = name, MetadataNamespace = namespace,
      ObjectData = data\<rparr>"

text \<open>The zero value \<^verbatim>\<open>configurationObject{}\<close>.\<close>

definition zero_configurationObject :: configurationObject where
  "zero_configurationObject =
     \<lparr>Kind = [], MetadataName = [], MetadataNamespace = [], ObjectData = Map.empty\<rparr>"

text \<open>
  \<^verbatim>\<open>
  type Manifests struct {
      KubeSysConfig *configurationObject
      FileList      []*asset.File
  }
  \<close>
\<close>

record Manifests =
  KubeSysConfig :: "configurationObject option"
  FileList :: "File list"

text \<open>
  The install configuration, \<^verbatim>\<open>types.InstallConfig\<close>, is declared in package
  \<^verbatim>\<open>types\<close>. The model has the fields that this file names; the other fields are
  kept as one opaque component of each struct (\<open>vsphereRest\<close>, \<open>platformRest\<close>, and
  \<open>configRest\<close> for the configuration and its machine pools), so that a serializer
  may depend on them. \<^verbatim>\<open>Platform.VSphere\<close> is a pointer: the type parameter \<open>'ref\<close>
  is an address of the store where the program runs, and the record pointed to where
  the configuration is seen as a value.
\<close>

record 'v vsphere_Platform =
  Username :: string
  Password :: string
  vsphereRest :: 'v

record ('ref, 'p) types_Platform =
  VSphere :: "'ref option"
  platformRest :: 'p

record types_MachinePool =
  Replicas :: "go_int option"

record ('ref, 'p, 'r) types_InstallConfig =
  PullSecret :: string
  Platform :: "('ref, 'p) types_Platform"
  ControlPlane :: "types_MachinePool option"
  configRest :: 'r

text \<open>
  The store of the vSphere platform records: the cells below \<open>top\<close> are allocated, and
  a new record is put at \<open>top\<close>.
\<close>

type_synonym addr = nat

record 'v store =
  cells :: "addr \<Rightarrow> 'v vsphere_Platform"
  top :: addr

definition alloc :: "'v store \<Rightarrow> 'v vsphere_Platform \<Rightarrow> 'v store \<times> addr" where
  "alloc h p = (h\<lparr>cells := (cells h)(top h := p), top := Suc (top h)\<rparr>, top h)"

text \<open>The configuration as the serializer sees it, with the pointer followed.\<close>

definition snapshot ::
  "'v store \<Rightarrow> (addr, 'p, 'r) types_InstallConfig \<Rightarrow>
     ('v vsphere_Platform, 'p, 'r) types_InstallConfig" where
  "snapshot h config =
     \<lparr>PullSecret = PullSecret config,
      Platform = \<lparr>VSphere = map_option (cells h) (VSphere (Platform config)),
                  platformRest = platformRest (Platform config)\<rparr>,
      ControlPlane = ControlPlane config,
      configRest = configRest config\<rparr>"

text \<open>
  \<^verbatim>\<open>bootkubeTemplateData\<close>, with the fields of the composite literal in
  \<^verbatim>\<open>generateBootKubeManifests\<close>.
\<close>

record bootkubeTemplateData =
  CVOClusterID :: string
  EtcdCaBundle :: string
  EtcdCaCert :: string
  EtcdClientCaCert :: string
  EtcdClientCaKey :: string
  EtcdClientCert :: string
  EtcdClientKey :: string
  EtcdEndpointDNSSuffix :: string
  EtcdEndpointHostnames :: "string list"
  EtcdMetricCaCert :: string
  EtcdMetricClientCert :: string
  EtcdMetricClientKey :: string
  EtcdSignerCert :: string
  EtcdSignerClientCert :: string
  EtcdSignerClientKey :: string
  EtcdSignerKey :: string
  McsTLSCert :: string
  McsTLSKey :: string
  PullSecretBase64 :: string
  RootCaCert :: string

text \<open>
  The helper functions registered with the template engine,
  \<^verbatim>\<open>customTmplFuncs = template.FuncMap{"indent": indent, "add": ...}\<close>.
\<close>

record FuncMap =
  indent_func :: "go_int \<Rightarrow> string \<Rightarrow> panic + string"
  add_func :: "go_int \<Rightarrow> go_int \<Rightarrow> go_int"

definition customTmplFuncs :: FuncMap where
  "customTmplFuncs = \<lparr>indent_func = indent, add_func = add\<rparr>"

text \<open>
  The libraries the file calls and whose code is not part of it are parameters of the
  model: the yaml serializer on the two types it is used at, the yaml parser (which
  fills the object it is given), the template engine (\<^verbatim>\<open>Parse\<close> and \<^verbatim>\<open>Execute\<close>), the
  base64 encoder, and the method \<^verbatim>\<open>ClusterDomain\<close> of the install configuration,
  which reads fields kept in \<open>configRest\<close>.
\<close>

record ('v, 'p, 'r, 't) ext =
  yaml_Marshal_config :: "('v vsphere_Platform, 'p, 'r) types_InstallConfig \<Rightarrow> error + string"
  yaml_Marshal_object :: "configurationObject \<Rightarrow> error + string"
  yaml_Unmarshal :: "string \<Rightarrow> configurationObject \<Rightarrow> error + configurationObject"
  template_Parse :: "FuncMap \<Rightarrow> string \<Rightarrow> error + 't"
  template_Execute :: "'t \<Rightarrow> bootkubeTemplateData \<Rightarrow> error + string"
  base64_EncodeToString :: "string \<Rightarrow> string"
  ClusterDomain :: "'r \<Rightarrow> string"

text \<open>
  \<^verbatim>\<open>asset.Parents\<close> is a map from the type of an asset to its generated state, and
  \<^verbatim>\<open>dependencies.Get\<close> copies that state out. The model holds what the file reads of
  each dependency: the assets of package \<^verbatim>\<open>tls\<close> by their certificate and key bytes,
  the assets of package \<^verbatim>\<open>bootkube\<close> by their files. \<^verbatim>\<open>InstallConfig.Config\<close> is a
  pointer and may be nil.
\<close>

datatype tlsAsset =
    RootCA | EtcdCA | EtcdSignerCertKey | EtcdCABundle | EtcdSignerClientCertKey
  | EtcdClientCertKey | EtcdMetricCABundle | EtcdMetricSignerClientCertKey | MCSCertKey

datatype bootkubeAsset =
    CVOOverrides | EtcdServiceKubeSystem | HostEtcdServiceEndpointsKubeSystem
  | HostEtcdServiceKubeSystem | KubeCloudConfig | KubeSystemConfigmapEtcdCA
  | KubeSystemConfigmapEtcdServingCA | KubeSystemConfigmapRootCA
  | KubeSystemSecretEtcdClient | KubeSystemSecretEtcdClientCADeprecated
  | KubeSystemSecretEtcdSigner | KubeSystemSecretEtcdSignerClient
  | MachineConfigServerTLSSecret | OpenshiftConfigConfigmapEtcdMetricServingCA
  | OpenshiftConfigSecretEtcdMetricClient | OpenshiftConfigSecretPullSecret
  | OpenshiftMachineConfigOperator | Pull

record ('p, 'r) Parents =
  ClusterID_UUID :: string
  InstallConfig_Config :: "(addr, 'p, 'r) types_InstallConfig option"
  Ingress_Files :: "File list"
  DNS_Files :: "File list"
  Networking_Files :: "File list"
  Infrastructure_Files :: "File list"
  tls_Cert :: "tlsAsset \<Rightarrow> string"
  tls_Key :: "tlsAsset \<Rightarrow> string"
  bootkube_Files :: "bootkubeAsset \<Rightarrow> File list"

text \<open>A call either returns a value or panics.\<close>

datatype 'a outcome = Returned 'a | Panicked panic

subsection \<open>Constants of the package\<close>

definition manifestDir :: string where
  "manifestDir = ''manifests''"

definition kubeSysConfigPath :: string where
  "kubeSysConfigPath = Join [manifestDir, ''cluster-config.yaml'']"

text \<open>
  Modelled from the spec: \<^verbatim>\<open>asset.SortFiles\<close> is defined in package \<^verbatim>\<open>asset\<close>. The
  spec says that it sorts the combined list into a single deterministic total order,
  by path, byte-wise. The order on strings is the lexicographic order on their bytes.
\<close>

definition SortFiles :: "File list \<Rightarrow> File list" where
  "SortFiles files = sort_key Filename files"

subsection \<open>The redactor\<close>

text \<open>
  \<^verbatim>\<open>
  func redactedInstallConfig(config types.InstallConfig) ([]byte, error) {
      config.PullSecret = ""
      if config.Platform.VSphere != nil {
          p := *config.Platform.VSphere
          p.Username = ""
          p.Password = ""
          config.Platform.VSphere = &p
      }
      return yaml.Marshal(config)
  }
  \<close>
  The parameter is a copy of the caller's struct, whose pointer fields still point
  into the caller's store. The model returns the store after the call beside the
  result, so that what the call wrote can be compared with what the caller holds.
\<close>

definition redactedInstallConfig ::
  "('v, 'p, 'r, 't) ext \<Rightarrow> 'v store \<Rightarrow> (addr, 'p, 'r) types_InstallConfig \<Rightarrow>
     'v store \<times> (error + string)" where
  "redactedInstallConfig x h config =
     (let config1 = config\<lparr>PullSecret := []\<rparr>
      in case VSphere (Platform config1) of
           None \<Rightarrow> (h, yaml_Marshal_config x (snapshot h config1))
         | Some a \<Rightarrow>
             (let p = cells h a;
                  p1 = p\<lparr>Username := []\<rparr>;
                  p2 = p1\<lparr>Password := []\<rparr>;
                  (h', a') = alloc h p2;
                  config2 = config1\<lparr>Platform := (Platform config1)\<lparr>VSphere := Some a'\<rparr>\<rparr>
              in (h', yaml_Marshal_config x (snapshot h' config2))))"

subsection \<open>The templated manifests\<close>

text \<open>
  \<^verbatim>\<open>
  etcdEndpointHostnames := make([]string, *installConfig.Config.ControlPlane.Replicas)
  for i := range etcdEndpointHostnames {
      etcdEndpointHostnames[i] = fmt.Sprintf("etcd-%d", i)
  }
  \<close>
  \<^verbatim>\<open>make\<close> panics on a negative length; otherwise the slice holds empty strings, and
  the loop overwrites them by index. (The limit that the memory of the machine puts
  on the length is not modelled.)
\<close>

definition make_strings :: "go_int \<Rightarrow> panic + string list" where
  "make_strings n =
     (if sint n < 0 then Inl MakeSliceLenOutOfRange
      else Inr (replicate (nat (sint n)) []))"

fun name_endpoints :: "nat \<Rightarrow> nat \<Rightarrow> string list \<Rightarrow> string list" where
  "name_endpoints i 0 hostnames = hostnames"
| "name_endpoints i (Suc k) hostnames =
     name_endpoints (Suc i) k (hostnames[i := ''etcd-'' @ Sprintf_d i])"

definition etcdEndpointHostnames :: "go_int \<Rightarrow> panic + string list" where
  "etcdEndpointHostnames replicas =
     (case make_strings replicas of
        Inl p \<Rightarrow> Inl p
      | Inr hostnames \<Rightarrow> Inr (name_endpoints 0 (length hostnames) hostnames))"

text \<open>
  \<^verbatim>\<open>
  func applyTemplateData(data []byte, templateData interface{}) []byte {
      template := template.Must(template.New("template").Funcs(customTmplFuncs).Parse(string(data)))
      buf := &bytes.Buffer{}
      if err := template.Execute(buf, templateData); err != nil {
          panic(err)
      }
      return buf.Bytes()
  }
  \<close>
  \<^verbatim>\<open>template.Must\<close> panics with the error of \<^verbatim>\<open>Parse\<close>.
\<close>

definition applyTemplateData ::
  "('v, 'p, 'r, 't) ext \<Rightarrow> string \<Rightarrow> bootkubeTemplateData \<Rightarrow> panic + string" where
  "applyTemplateData x data templateData =
     (case template_Parse x customTmplFuncs data of
        Inl err \<Rightarrow> Inl (TemplatePanic err)
      | Inr template \<Rightarrow>
          (case template_Execute x template templateData of
             Inl err \<Rightarrow> Inl (TemplatePanic err)
           | Inr buf \<Rightarrow> Inr buf))"

text \<open>The bound values, from the dependencies and the replica count's host names.\<close>

definition bootkube_templateData ::
  "('v, 'p, 'r, 't) ext \<Rightarrow> ('p, 'r) Parents \<Rightarrow> (addr, 'p, 'r) types_InstallConfig \<Rightarrow>
     string list \<Rightarrow> bootkubeTemplateData" where
  "bootkube_templateData x dependencies config hostnames =
     \<lparr>CVOClusterID = ClusterID_UUID dependencies,
      EtcdCaBundle = base64_EncodeToString x (tls_Cert dependencies EtcdCABundle),
      EtcdCaCert = tls_Cert dependencies EtcdCA,
      EtcdClientCaCert = base64_EncodeToString x (tls_Cert dependencies EtcdCA),
      EtcdClientCaKey = base64_EncodeToString x (tls_Key dependencies EtcdCA),
      EtcdClientCert = base64_EncodeToString x (tls_Cert dependencies EtcdClientCertKey),
      EtcdClientKey = base64_EncodeToString x (tls_Key dependencies EtcdClientCertKey),
      EtcdEndpointDNSSuffix = ClusterDomain x (configRest config),
      EtcdEndpointHostnames = hostnames,
      EtcdMetricCaCert = tls_Cert dependencies EtcdMetricCABundle,
      EtcdMetricClientCert =
        base64_EncodeToString x (tls_Cert dependencies EtcdMetricSignerClientCertKey),
      EtcdMetricClientKey =
        base64_EncodeToString x (tls_Key dependencies EtcdMetricSignerClientCertKey),
      EtcdSignerCert = base64_EncodeToString x (tls_Cert dependencies EtcdSignerCertKey),
      EtcdSignerClientCert =
        base64_EncodeToString x (tls_Cert dependencies EtcdSignerClientCertKey),
      EtcdSignerClientKey =
        base64_EncodeToString x (tls_Key dependencies EtcdSignerClientCertKey),
      EtcdSignerKey = base64_EncodeToString x (tls_Key dependencies EtcdSignerCertKey),
      McsTLSCert = base64_EncodeToString x (tls_Cert dependencies MCSCertKey),
      McsTLSKey = base64_EncodeToString x (tls_Key dependencies MCSCertKey),
      PullSecretBase64 = base64_EncodeToString x (PullSecret config),
      RootCaCert = tls_Cert dependencies RootCA\<rparr>"

text \<open>The assets whose files are templates, in the order of the loop.\<close>

definition bootkube_assets :: "bootkubeAsset list" where
  "bootkube_assets =
     [CVOOverrides, EtcdServiceKubeSystem, HostEtcdServiceEndpointsKubeSystem,
      HostEtcdServiceKubeSystem, KubeCloudConfig, KubeSystemConfigmapEtcdCA,
      KubeSystemConfigmapEtcdServingCA, KubeSystemConfigmapRootCA,
      KubeSystemSecretEtcdClient, KubeSystemSecretEtcdClientCADeprecated,
      KubeSystemSecretEtcdSigner, KubeSystemSecretEtcdSignerClient,
      MachineConfigServerTLSSecret, OpenshiftConfigConfigmapEtcdMetricServingCA,
      OpenshiftConfigSecretEtcdMetricClient, OpenshiftConfigSecretPullSecret,
      OpenshiftMachineConfigOperator, Pull]"

text \<open>
  The inner loop, over the files of one asset:
  \<^verbatim>\<open>
  for _, f := range a.Files() {
      files = append(files, &asset.File{
          Filename: filepath.Join(manifestDir, strings.TrimSuffix(filepath.Base(f.Filename), ".template")),
          Data:     applyTemplateData(f.Data, templateData),
      })
  }
  \<close>
  and the outer loop, over the assets. A panic of \<^verbatim>\<open>applyTemplateData\<close> ends both.
\<close>

fun render_files ::
  "('v, 'p, 'r, 't) ext \<Rightarrow> bootkubeTemplateData \<Rightarrow> File list \<Rightarrow> File list \<Rightarrow>
     panic + File list" where
  "render_files x templateData files [] = Inr files"
| "render_files x templateData files (f # fs) =
     (case applyTemplateData x (Data f) templateData of
        Inl p \<Rightarrow> Inl p
      | Inr out \<Rightarrow>
          render_files x templateData
            (files @ [\<lparr>Filename = Join [manifestDir, TrimSuffix (Base (Filename f)) ''.template''],
                       Data = out\<rparr>])
            fs)"

fun render_assets ::
  "('v, 'p, 'r, 't) ext \<Rightarrow> bootkubeTemplateData \<Rightarrow> (bootkubeAsset \<Rightarrow> File list) \<Rightarrow>
     File list \<Rightarrow> bootkubeAsset list \<Rightarrow> panic + File list" where
  "render_assets x templateData asset_files files [] = Inr files"
| "render_assets x templateData asset_files files (a # as) =
     (case render_files x templateData files (asset_files a) of
        Inl p \<Rightarrow> Inl p
      | Inr files' \<Rightarrow> render_assets x templateData asset_files files' as)"

text \<open>
  \<^verbatim>\<open>generateBootKubeManifests\<close>: it has no error result, so it returns the files or
  panics. The pointers \<^verbatim>\<open>Config\<close>, \<^verbatim>\<open>ControlPlane\<close> and \<^verbatim>\<open>Replicas\<close> are followed
  in this order by \<^verbatim>\<open>*installConfig.Config.ControlPlane.Replicas\<close>.
\<close>

definition generateBootKubeManifests ::
  "('v, 'p, 'r, 't) ext \<Rightarrow> ('p, 'r) Parents \<Rightarrow> panic + File list" where
  "generateBootKubeManifests x dependencies =
     (case InstallConfig_Config dependencies of
        None \<Rightarrow> Inl NilDereference
      | Some config \<Rightarrow>
          (case ControlPlane config of
             None \<Rightarrow> Inl NilDereference
           | Some pool \<Rightarrow>
               (case Replicas pool of
                  None \<Rightarrow> Inl NilDereference
                | Some replicas \<Rightarrow>
                    (case etcdEndpointHostnames replicas of
                       Inl p \<Rightarrow> Inl p
                     | Inr hostnames \<Rightarrow>
                         render_assets x
                           (bootkube_templateData x dependencies config hostnames)
                           (bootkube_Files dependencies) [] bootkube_assets))))"

subsection \<open>Generate, Files and Load\<close>

text \<open>
  \<^verbatim>\<open>Generate\<close> returns an error or nil, or panics; the model returns the asset as it
  is at that moment beside the outcome. The store after the redaction is dropped:
  the record allocated there is local to \<^verbatim>\<open>redactedInstallConfig\<close>.
\<close>

definition Generate ::
  "('v, 'p, 'r, 't) ext \<Rightarrow> 'v store \<Rightarrow> Manifests \<Rightarrow> ('p, 'r) Parents \<Rightarrow>
     error option outcome \<times> Manifests" where
  "Generate x h m dependencies =
     (case InstallConfig_Config dependencies of
        None \<Rightarrow> (Panicked NilDereference, m)
      | Some config \<Rightarrow>
          (case snd (redactedInstallConfig x h config) of
             Inl err \<Rightarrow>
               (Returned (Some (errors_Wrap err ''failed to redact install-config'')), m)
           | Inr redactedConfig \<Rightarrow>
               (let object = configMap ''kube-system'' ''cluster-config-v1''
                               [''install-config'' \<mapsto> redactedConfig];
                    m1 = m\<lparr>KubeSysConfig := Some object\<rparr>
                in case yaml_Marshal_object x object of
                     Inl err \<Rightarrow>
                       (Returned (Some (errors_Wrap err
                          ''failed to create kube-system/cluster-config-v1 configmap'')), m1)
                   | Inr kubeSysConfigData \<Rightarrow>
                       (let m2 = m1\<lparr>FileList :=
                                  [\<lparr>Filename = kubeSysConfigPath, Data = kubeSysConfigData\<rparr>]\<rparr>
                        in case generateBootKubeManifests x dependencies of
                             Inl p \<Rightarrow> (Panicked p, m2)
                           | Inr bootkube \<Rightarrow>
                               (let m3 = m2\<lparr>FileList := FileList m2 @ bootkube\<rparr>;
                                    m4 = m3\<lparr>FileList := FileList m3 @ Ingress_Files dependencies\<rparr>;
                                    m5 = m4\<lparr>FileList := FileList m4 @ DNS_Files dependencies\<rparr>;
                                    m6 = m5\<lparr>FileList := FileList m5 @ Networking_Files dependencies\<rparr>;
                                    m7 = m6\<lparr>FileList := FileList m6 @ Infrastructure_Files dependencies\<rparr>;
                                    m8 = m7\<lparr>FileList := SortFiles (FileList m7)\<rparr>
                                in (Returned None, m8))))))"

text \<open>\<^verbatim>\<open>func (m *Manifests) Files() []*asset.File { return m.FileList }\<close>\<close>

definition Files :: "Manifests \<Rightarrow> File list" where
  "Files m = FileList m"

text \<open>
  The loop of \<^verbatim>\<open>Load\<close>: every file at the path of the status record is parsed into
  the same object, and the first failure ends the loop with the wrapped error.
\<close>

fun load_scan ::
  "('v, 'p, 'r, 't) ext \<Rightarrow> File list \<Rightarrow> configurationObject \<Rightarrow> bool \<Rightarrow>
     error + configurationObject \<times> bool" where
  "load_scan x [] kubeSysConfig found = Inr (kubeSysConfig, found)"
| "load_scan x (file # files) kubeSysConfig found =
     (if Filename file = kubeSysConfigPath then
        (case yaml_Unmarshal x (Data file) kubeSysConfig of
           Inl err \<Rightarrow> Inl (errors_Wrap err ''failed to unmarshal cluster-config.yaml'')
         | Inr kubeSysConfig' \<Rightarrow> load_scan x files kubeSysConfig' True)
      else load_scan x files kubeSysConfig found)"

text \<open>
  \<^verbatim>\<open>Load\<close> takes an \<^verbatim>\<open>asset.FileFetcher\<close>, an interface of which it calls
  \<^verbatim>\<open>FetchByPattern\<close> once; the model takes that method.
\<close>

definition Load ::
  "('v, 'p, 'r, 't) ext \<Rightarrow> (string \<Rightarrow> error + File list) \<Rightarrow> Manifests \<Rightarrow>
     (bool \<times> error option) \<times> Manifests" where
  "Load x FetchByPattern m =
     (case FetchByPattern (Join [manifestDir, ''*'']) of
        Inl err \<Rightarrow> ((False, Some err), m)
      | Inr fileList \<Rightarrow>
          (if length fileList = 0 then ((False, None), m)
           else
             (case load_scan x fileList zero_configurationObject False of
                Inl err \<Rightarrow> ((False, Some err), m)
              | Inr (kubeSysConfig, found) \<Rightarrow>
                  (if \<not> found then ((False, None), m)
                   else
                     (let m1 = m\<lparr>FileList := fileList, KubeSysConfig := Some kubeSysConfig\<rparr>;
                          m2 = m1\<lparr>FileList := SortFiles (FileList m1)\<rparr>
                      in ((True, None), m2))))))"

subsection \<open>Functions used to state the properties\<close>

text \<open>A text from its lines: one newline between two consecutive lines.\<close>

fun unlines :: "string list \<Rightarrow> string" where
  "unlines [] = []"
| "unlines [l] = l"
| "unlines (l # l' # ls) = l @ [CHR 0x0A] @ unlines (l' # ls)"

text \<open>The number that a string of decimal digits denotes.\<close>

definition decimal_value :: "string \<Rightarrow> nat" where
  "decimal_value s = foldl (\<lambda>acc c. 10 * acc + (of_char c - 48)) 0 s"

text \<open>
  The redaction as the spec words it, on the configuration seen as a value: a copy
  with the pull secret and, where the vSphere platform is set, its user name and
  password cleared. \<open>with_secrets\<close> puts other values in exactly these fields, and
  \<open>allocated\<close> says that the pointer of a configuration, if not nil, points to an
  allocated cell of the store.
\<close>

definition cleared ::
  "('v vsphere_Platform, 'p, 'r) types_InstallConfig \<Rightarrow>
     ('v vsphere_Platform, 'p, 'r) types_InstallConfig" where
  "cleared v =
     v\<lparr>PullSecret := [],
       Platform := (Platform v)\<lparr>VSphere :=
         map_option (\<lambda>p. p\<lparr>Username := [], Password := []\<rparr>) (VSphere (Platform v))\<rparr>\<rparr>"

definition with_secrets ::
  "string \<Rightarrow> string \<Rightarrow> string \<Rightarrow> ('v vsphere_Platform, 'p, 'r) types_InstallConfig \<Rightarrow>
     ('v vsphere_Platform, 'p, 'r) types_InstallConfig" where
  "with_secrets s u w v =
     v\<lparr>PullSecret := s,
       Platform := (Platform v)\<lparr>VSphere :=
         map_option (\<lambda>p. p\<lparr>Username := u, Password := w\<rparr>) (VSphere (Platform v))\<rparr>\<rparr>"

definition allocated :: "'v store \<Rightarrow> (addr, 'p, 'r) types_InstallConfig \<Rightarrow> bool" where
  "allocated h config =
     (case VSphere (Platform config) of None \<Rightarrow> True | Some a \<Rightarrow> a < top h)"

text \<open>
  The path that the loop of \<open>generateBootKubeManifests\<close> gives to the file rendered
  from a source file, and the files that \<open>Generate\<close> collects before it sorts them.
\<close>

definition rendered_path :: "File \<Rightarrow> string" where
  "rendered_path f = Join [manifestDir, TrimSuffix (Base (Filename f)) ''.template'']"

definition template_files :: "('p, 'r) Parents \<Rightarrow> File list" where
  "template_files dependencies = concat (map (bootkube_Files dependencies) bootkube_assets)"

definition collected ::
  "File \<Rightarrow> File list \<Rightarrow> ('p, 'r) Parents \<Rightarrow> File list" where
  "collected status bootkube dependencies =
     status # bootkube @ Ingress_Files dependencies @ DNS_Files dependencies
       @ Networking_Files dependencies @ Infrastructure_Files dependencies"

text \<open>
  The file that the loop makes of a source file: the rendered path, and the output
  of the template engine on the file's bytes (of which the loop makes a file only
  when the engine succeeds).
\<close>

definition rendered ::
  "('v, 'p, 'r, 't) ext \<Rightarrow> bootkubeTemplateData \<Rightarrow> File \<Rightarrow> File" where
  "rendered x td f =
     \<lparr>Filename = rendered_path f,
      Data = (case applyTemplateData x (Data f) td of Inr out \<Rightarrow> out | Inl p \<Rightarrow> [])\<rparr>"

subsection \<open>A small environment for concrete runs\<close>

text \<open>
  The theorems below hold for every serializer, parser and template engine. To run
  the model on concrete inputs, this environment gives simple stand-ins for them: a
  serializer that prints the fields one per line, a parser that accepts the texts
  starting with \<^verbatim>\<open>kind:\<close>, and a template engine that rejects the unclosed action
  \<^verbatim>\<open>{{\<close> when parsing, fails on the unknown field \<^verbatim>\<open>{{.Missing}}\<close> when executing,
  expands \<^verbatim>\<open>{{.CVOClusterID}}\<close> and copies every other text.
\<close>

definition sample_ext :: "(string, unit, string, string) ext" where
  "sample_ext =
     \<lparr>yaml_Marshal_config = (\<lambda>c. Inr
        (''baseDomain: '' @ configRest c @ ''\<newline>pullSecret: '' @ PullSecret c @ ''\<newline>''
         @ (case VSphere (Platform c) of
              None \<Rightarrow> []
            | Some p \<Rightarrow> ''vCenter: '' @ vsphereRest p @ ''\<newline>username: '' @ Username p
                        @ ''\<newline>password: '' @ Password p @ ''\<newline>''))),
      yaml_Marshal_object = (\<lambda>obj. Inr
        (''kind: '' @ Kind obj @ ''\<newline>name: '' @ MetadataName obj @ ''\<newline>''
         @ (case ObjectData obj ''install-config'' of None \<Rightarrow> [] | Some s \<Rightarrow> s))),
      yaml_Unmarshal = (\<lambda>data obj.
        if HasPrefix data ''kind: '' then Inr (obj\<lparr>Kind := ''ConfigMap''\<rparr>)
        else Inl (Err ''yaml: unmarshal error'')),
      template_Parse = (\<lambda>funcs body.
        if body = ''{{'' then Inl (Err ''template: unclosed action'') else Inr body),
      template_Execute = (\<lambda>t data.
        if t = ''{{.Missing}}'' then Inl (Err ''template: cannot evaluate field Missing'')
        else if t = ''{{.CVOClusterID}}'' then Inr (CVOClusterID data)
        else Inr t),
      base64_EncodeToString = (\<lambda>s. ''b64:'' @ s),
      ClusterDomain = (\<lambda>r. ''test.'' @ r)\<rparr>"

definition sample_store :: "string store" where
  "sample_store =
     \<lparr>cells = (\<lambda>a. \<lparr>Username = ''admin'', Password = ''hunter2'', vsphereRest = ''vc1''\<rparr>),
      top = 1\<rparr>"

definition sample_config :: "(addr, unit, string) types_InstallConfig" where
  "sample_config =
     \<lparr>PullSecret = ''s3cret'',
      Platform = \<lparr>VSphere = Some 0, platformRest = ()\<rparr>,
      ControlPlane = Some \<lparr>Replicas = Some 3\<rparr>,
      configRest = ''example.com''\<rparr>"

definition sample_dependencies :: "string \<Rightarrow> (unit, string) Parents" where
  "sample_dependencies body =
     \<lparr>ClusterID_UUID = ''uuid-1'',
      InstallConfig_Config = Some sample_config,
      Ingress_Files = [\<lparr>Filename = ''manifests/cluster-ingress-02-config.yml'', Data = ''i''\<rparr>],
      DNS_Files = [\<lparr>Filename = ''manifests/cluster-dns-02-config.yml'', Data = ''d''\<rparr>],
      Networking_Files = [],
      Infrastructure_Files = [],
      tls_Cert = (\<lambda>a. ''cert''),
      tls_Key = (\<lambda>a. ''key''),
      bootkube_Files = (\<lambda>a.
        if a = CVOOverrides
        then [\<lparr>Filename = ''cvo-overrides.yaml.template'', Data = body\<rparr>]
        else [])\<rparr>"

definition empty_Manifests :: Manifests where
  "empty_Manifests = \<lparr>KubeSysConfig = None, FileList = []\<rparr>"

text \<open>
  A second store and configuration, equal to the first but for the three secret
  values; an environment whose serializer of the status record fails; and a fetcher
  that returns the files of a run of \<open>Generate\<close>, in reverse order, for the pattern
  of the manifests.
\<close>

definition sample_store2 :: "string store" where
  "sample_store2 =
     \<lparr>cells = (\<lambda>a. \<lparr>Username = ''root'', Password = ''12345'', vsphereRest = ''vc1''\<rparr>),
      top = 1\<rparr>"

definition sample_config2 :: "(addr, unit, string) types_InstallConfig" where
  "sample_config2 = sample_config\<lparr>PullSecret := ''0ther''\<rparr>"

definition failing_ext :: "(string, unit, string, string) ext" where
  "failing_ext = sample_ext\<lparr>yaml_Marshal_object := (\<lambda>obj. Inl (Err ''yaml: marshal error''))\<rparr>"

definition sample_generated :: "File list" where
  "sample_generated =
     FileList (snd (Generate sample_ext sample_store empty_Manifests
                      (sample_dependencies ''{{.CVOClusterID}}'')))"

definition sample_fetch :: "string \<Rightarrow> error + File list" where
  "sample_fetch pattern =
     (if pattern = ''manifests/*'' then Inr (rev sample_generated)
      else Inl (Err ''unexpected pattern''))"

section \<open>Properties\<close>

subsection \<open>Library functions\<close>

lemma ReplaceAll_char:
  "ReplaceAll v [c] new = concat (map (\<lambda>d. if d = c then new else [d]) v)"
  by (induction v) auto

lemma ReplaceAll_append:
  "ReplaceAll (u @ v) [c] new = ReplaceAll u [c] new @ ReplaceAll v [c] new"
  by (simp add: ReplaceAll_char)

lemma ReplaceAll_absent: "c \<notin> set l \<Longrightarrow> ReplaceAll l [c] new = l"
  by (induction l) auto

lemma concat_replicate_single: "concat (replicate n [c]) = replicate n c"
  by (induction n) auto

lemma unlines_Cons_append: "unlines ((pad @ a) # rest) = pad @ unlines (a # rest)"
  by (cases rest) simp_all

lemma ReplaceAll_unlines:
  "CHR 0x0A \<notin> set l0 \<Longrightarrow> \<forall>l \<in> set ls. CHR 0x0A \<notin> set l \<Longrightarrow>
   ReplaceAll (unlines (l0 # ls)) [CHR 0x0A] (CHR 0x0A # pad) =
     unlines (l0 # map (\<lambda>l. pad @ l) ls)"
proof (induction ls arbitrary: l0)
  case Nil
  then show ?case by (simp add: ReplaceAll_absent)
next
  case (Cons a ls)
  have "ReplaceAll (unlines (a # ls)) [CHR 0x0A] (CHR 0x0A # pad) =
          unlines (a # map (\<lambda>l. pad @ l) ls)"
    using Cons.IH [of a] Cons.prems by simp
  then show ?case
    using Cons.prems by (simp add: ReplaceAll_append ReplaceAll_absent unlines_Cons_append)
qed

lemma indent_Inr:
  "0 \<le> sint n \<Longrightarrow>
   indent n v = Inr (ReplaceAll v [CHR 0x0A] (CHR 0x0A # replicate (nat (sint n)) CHR '' ''))"
  by (simp add: indent_def Repeat_def concat_replicate_single)

lemma digit_char_val: "d < 10 \<Longrightarrow> of_char (digit_char d) = (48 + d :: nat)"
  by (simp add: digit_char_def)

lemma decimal_value_Sprintf_d: "decimal_value (Sprintf_d n) = n"
proof (induction n rule: Sprintf_d.induct)
  case (1 n)
  show ?case
  proof (cases "n < 10")
    case True
    then show ?thesis
      by (simp add: Sprintf_d.simps [of n] decimal_value_def digit_char_val)
  next
    case False
    with 1 show ?thesis
      by (simp add: Sprintf_d.simps [of n] decimal_value_def digit_char_val)
  qed
qed

lemma name_endpoints_eq:
  "i + k = length xs \<Longrightarrow>
   name_endpoints i k xs = take i xs @ map (\<lambda>j. ''etcd-'' @ Sprintf_d j) [i..<i + k]"
proof (induction k arbitrary: i xs)
  case 0
  then show ?case by simp
next
  case (Suc k)
  then show ?case
    by (simp add: take_Suc_conv_app_nth upt_rec [of i])
qed

lemma etcdEndpointHostnames_eq:
  "0 \<le> sint replicas \<Longrightarrow>
   etcdEndpointHostnames replicas =
     Inr (map (\<lambda>j. ''etcd-'' @ Sprintf_d j) [0..<nat (sint replicas)])"
  by (simp add: etcdEndpointHostnames_def make_strings_def name_endpoints_eq)

subsection \<open>The indent helper\<close>

text \<open>
  Claim C8. For every non-negative width \<open>n\<close> and every string \<open>v\<close>, \<open>indent n v\<close>
  returns \<open>v\<close> with each newline replaced by a newline followed by \<open>n\<close> spaces. Seen
  line by line: the first line is unchanged and every later line is shifted by \<open>n\<close>
  spaces. In particular indenting the two lines \<open>a\<close> and \<open>b\<close> by 2 gives \<open>a\<close> and
  \<open>b\<close> after two spaces.
\<close>

theorem indent_shifts_all_but_first_line:
  assumes "0 \<le> sint n"
  shows "indent n v =
           Inr (concat (map (\<lambda>c. if c = CHR 0x0A
                                  then CHR 0x0A # replicate (nat (sint n)) CHR '' ''
                                  else [c]) v))
       \<and> (CHR 0x0A \<notin> set l0 \<and> (\<forall>l \<in> set ls. CHR 0x0A \<notin> set l) \<longrightarrow>
            indent n (unlines (l0 # ls)) =
              Inr (unlines (l0 # map (\<lambda>l. replicate (nat (sint n)) CHR '' '' @ l) ls)))
       \<and> indent 2 ''a\<newline>b'' = Inr ''a\<newline>  b''"
proof (intro conjI impI)
  show "indent n v =
          Inr (concat (map (\<lambda>c. if c = CHR 0x0A
                                 then CHR 0x0A # replicate (nat (sint n)) CHR '' ''
                                 else [c]) v))"
    using assms by (simp add: indent_Inr ReplaceAll_char)
next
  assume "CHR 0x0A \<notin> set l0 \<and> (\<forall>l \<in> set ls. CHR 0x0A \<notin> set l)"
  then show "indent n (unlines (l0 # ls)) =
               Inr (unlines (l0 # map (\<lambda>l. replicate (nat (sint n)) CHR '' '' @ l) ls))"
    using assms by (simp add: indent_Inr ReplaceAll_unlines)
next
  show "indent 2 ''a\<newline>b'' = Inr ''a\<newline>  b''"
    by (simp add: indent_Inr numeral_eq_Suc)
qed

theorem indent_shifts_all_but_first_line_witness:
  "0 \<le> sint (4 :: go_int)
   \<and> indent 4 ''x: |\<newline>cert\<newline>key'' = Inr ''x: |\<newline>    cert\<newline>    key''
   \<and> indent 4 (unlines [''x: |'', ''cert'', ''key'']) =
       Inr (unlines [''x: |'', ''    cert'', ''    key''])"
  using indent_shifts_all_but_first_line
          [of 4 "''x: |\<newline>cert\<newline>key''" "''x: |''" "[''cert'', ''key'']"]
  by (simp add: numeral_eq_Suc)

subsection \<open>Replica-derived names\<close>

text \<open>
  Claim C7. For every control-plane replica count \<open>n\<close>, a count being non-negative,
  the list of etcd endpoint host names has exactly \<open>n\<close> entries, and the entry at
  index \<open>i\<close> is \<open>etcd-\<close> followed by the decimal digits of \<open>i\<close>, from 0 on; it is the
  list bound in the template data of \<open>generateBootKubeManifests\<close>. For \<open>n = 3\<close> the
  list is \<open>etcd-0\<close>, \<open>etcd-1\<close>, \<open>etcd-2\<close>.
\<close>

theorem etcd_hostnames_follow_replica_count:
  assumes "0 \<le> sint replicas"
  shows "\<exists>names.
           etcdEndpointHostnames replicas = Inr names
         \<and> int (length names) = sint replicas
         \<and> (\<forall>i < length names.
              names ! i = ''etcd-'' @ Sprintf_d i \<and> decimal_value (Sprintf_d i) = i)
         \<and> generateBootKubeManifests x
             (dependencies\<lparr>InstallConfig_Config :=
                Some (config\<lparr>ControlPlane := Some \<lparr>Replicas = Some replicas\<rparr>\<rparr>)\<rparr>) =
             render_assets x
               (bootkube_templateData x
                  (dependencies\<lparr>InstallConfig_Config :=
                     Some (config\<lparr>ControlPlane := Some \<lparr>Replicas = Some replicas\<rparr>\<rparr>)\<rparr>)
                  (config\<lparr>ControlPlane := Some \<lparr>Replicas = Some replicas\<rparr>\<rparr>)
                  names)
               (bootkube_Files dependencies) [] bootkube_assets
         \<and> EtcdEndpointHostnames
             (bootkube_templateData x
                (dependencies\<lparr>InstallConfig_Config :=
                   Some (config\<lparr>ControlPlane := Some \<lparr>Replicas = Some replicas\<rparr>\<rparr>)\<rparr>)
                (config\<lparr>ControlPlane := Some \<lparr>Replicas = Some replicas\<rparr>\<rparr>)
                names) = names"
proof -
  let ?names = "map (\<lambda>j. ''etcd-'' @ Sprintf_d j) [0..<nat (sint replicas)]"
  have eq: "etcdEndpointHostnames replicas = Inr ?names"
    using assms by (rule etcdEndpointHostnames_eq)
  have len: "int (length ?names) = sint replicas"
    using assms by simp
  have nth: "\<forall>i < length ?names.
               ?names ! i = ''etcd-'' @ Sprintf_d i \<and> decimal_value (Sprintf_d i) = i"
    by (simp add: decimal_value_Sprintf_d)
  have gen: "generateBootKubeManifests x
             (dependencies\<lparr>InstallConfig_Config :=
                Some (config\<lparr>ControlPlane := Some \<lparr>Replicas = Some replicas\<rparr>\<rparr>)\<rparr>) =
             render_assets x
               (bootkube_templateData x
                  (dependencies\<lparr>InstallConfig_Config :=
                     Some (config\<lparr>ControlPlane := Some \<lparr>Replicas = Some replicas\<rparr>\<rparr>)\<rparr>)
                  (config\<lparr>ControlPlane := Some \<lparr>Replicas = Some replicas\<rparr>\<rparr>)
                  ?names)
               (bootkube_Files dependencies) [] bootkube_assets"
    by (simp add: generateBootKubeManifests_def eq)
  have bound: "EtcdEndpointHostnames
             (bootkube_templateData x
                (dependencies\<lparr>InstallConfig_Config :=
                   Some (config\<lparr>ControlPlane := Some \<lparr>Replicas = Some replicas\<rparr>\<rparr>)\<rparr>)
                (config\<lparr>ControlPlane := Some \<lparr>Replicas = Some replicas\<rparr>\<rparr>)
                ?names) = ?names"
    by (simp add: bootkube_templateData_def)
  from eq len nth gen bound show ?thesis by blast
qed

theorem etcd_hostnames_follow_replica_count_witness:
  "0 \<le> sint (3 :: go_int)
   \<and> etcdEndpointHostnames 3 = Inr [''etcd-0'', ''etcd-1'', ''etcd-2'']"
proof -
  have h: "0 \<le> sint (3 :: go_int)" by simp
  obtain names where n: "etcdEndpointHostnames 3 = Inr names"
      "int (length names) = sint (3 :: go_int)"
      "\<forall>i < length names. names ! i = ''etcd-'' @ Sprintf_d i \<and> decimal_value (Sprintf_d i) = i"
    using etcd_hostnames_follow_replica_count [OF h] by blast
  from n(2) have len: "length names = 3" by simp
  then have "names = [names ! 0, names ! 1, names ! 2]"
    by (auto simp: list_eq_iff_nth_eq nth_Cons numeral_eq_Suc less_Suc_eq_0_disj)
  moreover have "Sprintf_d 0 = ''0''" "Sprintf_d 1 = ''1''" "Sprintf_d 2 = ''2''"
    by code_simp+
  then have "names ! 0 = ''etcd-0''" "names ! 1 = ''etcd-1''" "names ! 2 = ''etcd-2''"
    using n(3) len by simp_all
  ultimately have "names = [''etcd-0'', ''etcd-1'', ''etcd-2'']" by simp
  with n(1) h show ?thesis by simp
qed

subsection \<open>Auxiliary facts about the redactor and the templates\<close>

lemma redacted_bytes:
  "snd (redactedInstallConfig x h config) = yaml_Marshal_config x (cleared (snapshot h config))"
  by (cases "VSphere (Platform config)")
     (simp_all add: redactedInstallConfig_def alloc_def snapshot_def cleared_def Let_def)

lemma applyTemplateData_Inl:
  "applyTemplateData x d td = Inl p \<Longrightarrow> \<exists>err. p = TemplatePanic err"
  by (auto simp: applyTemplateData_def split: sum.splits)

lemma render_files_Inr:
  "render_files x td acc fs = Inr out \<longleftrightarrow>
     (\<forall>f \<in> set fs. \<exists>b. applyTemplateData x (Data f) td = Inr b) \<and>
     out = acc @ map (rendered x td) fs"
  by (induction fs arbitrary: acc)
     (auto simp: rendered_def rendered_path_def split: sum.splits)

lemma render_files_Inl:
  "render_files x td acc fs = Inl p \<Longrightarrow>
     \<exists>f \<in> set fs. \<exists>err. applyTemplateData x (Data f) td = Inl (TemplatePanic err) \<and> p = TemplatePanic err"
  by (induction fs arbitrary: acc)
     (auto split: sum.splits dest: applyTemplateData_Inl)

lemma render_assets_Inr:
  "render_assets x td af acc as = Inr out \<longleftrightarrow>
     (\<forall>f \<in> set (concat (map af as)). \<exists>b. applyTemplateData x (Data f) td = Inr b) \<and>
     out = acc @ map (rendered x td) (concat (map af as))"
proof (induction as arbitrary: acc)
  case Nil
  then show ?case by auto
next
  case (Cons a as)
  show ?case
  proof (cases "render_files x td acc (af a)")
    case (Inl p)
    then have "\<not> (\<forall>f \<in> set (af a). \<exists>b. applyTemplateData x (Data f) td = Inr b)"
      using render_files_Inr [of x td acc "af a"] by auto
    with Inl show ?thesis by auto
  next
    case (Inr files')
    then have *: "(\<forall>f \<in> set (af a). \<exists>b. applyTemplateData x (Data f) td = Inr b)"
        "files' = acc @ map (rendered x td) (af a)"
      using render_files_Inr [of x td acc "af a" files'] by auto
    show ?thesis using Inr * Cons.IH [of files'] by auto
  qed
qed

lemma render_assets_Inl:
  "render_assets x td af acc as = Inl p \<Longrightarrow>
     \<exists>f \<in> set (concat (map af as)). \<exists>err. applyTemplateData x (Data f) td = Inl (TemplatePanic err) \<and> p = TemplatePanic err"
proof (induction as arbitrary: acc)
  case Nil
  then show ?case by simp
next
  case (Cons a as)
  show ?case
  proof (cases "render_files x td acc (af a)")
    case (Inl q)
    with Cons.prems have "q = p" by simp
    with Inl render_files_Inl [of x td acc "af a" p] show ?thesis by auto
  next
    case (Inr files')
    with Cons.prems have "render_assets x td af files' as = Inl p" by simp
    from Cons.IH [OF this] show ?thesis by auto
  qed
qed

lemma Generate_Returned_None:
  "Generate x h m dependencies = (Returned None, m') \<longleftrightarrow>
     (\<exists>config bytes kubeSysConfigData bootkube.
        InstallConfig_Config dependencies = Some config
      \<and> yaml_Marshal_config x (cleared (snapshot h config)) = Inr bytes
      \<and> yaml_Marshal_object x
            (configMap ''kube-system'' ''cluster-config-v1'' [''install-config'' \<mapsto> bytes]) =
          Inr kubeSysConfigData
      \<and> generateBootKubeManifests x dependencies = Inr bootkube
      \<and> m' = \<lparr>KubeSysConfig =
                 Some (configMap ''kube-system'' ''cluster-config-v1'' [''install-config'' \<mapsto> bytes]),
               FileList =
                 SortFiles (collected \<lparr>Filename = kubeSysConfigPath, Data = kubeSysConfigData\<rparr>
                              bootkube dependencies)\<rparr>)"
  by (auto simp: Generate_def redacted_bytes Let_def collected_def split: option.splits sum.splits)

lemma Generate_Returned_Some:
  "Generate x h m dependencies = (Returned (Some e), m') \<Longrightarrow>
     FileList m' = FileList m \<and>
     (\<exists>err. e = Wrap err ''failed to redact install-config''
          \<or> e = Wrap err ''failed to create kube-system/cluster-config-v1 configmap'')"
  by (auto simp: Generate_def Let_def errors_Wrap_def split: option.splits sum.splits)

lemma generateBootKubeManifests_Inr:
  "generateBootKubeManifests x dependencies = Inr bootkube \<longleftrightarrow>
     (\<exists>config pool replicas names.
        InstallConfig_Config dependencies = Some config
      \<and> ControlPlane config = Some pool
      \<and> Replicas pool = Some replicas
      \<and> etcdEndpointHostnames replicas = Inr names
      \<and> (\<forall>f \<in> set (template_files dependencies). \<exists>b.
            applyTemplateData x (Data f) (bootkube_templateData x dependencies config names) = Inr b)
      \<and> bootkube = map (rendered x (bootkube_templateData x dependencies config names))
                      (template_files dependencies))"
  by (auto simp: generateBootKubeManifests_def render_assets_Inr template_files_def
           split: option.splits sum.splits)

subsection \<open>Auxiliary facts about paths and sorting\<close>

lemma split_sep_nonempty: "split_sep s \<noteq> []"
  by (induction s) (auto split: list.splits)

lemma split_sep_no_sep: "CHR ''/'' \<notin> set b \<Longrightarrow> split_sep b = [b]"
  by (induction b) auto

lemma split_sep_append:
  "CHR ''/'' \<notin> set a \<Longrightarrow> split_sep (a @ CHR ''/'' # rest) = a # split_sep rest"
  by (induction a) auto

lemma Join_manifestDir:
  assumes "b \<noteq> []" "b \<noteq> ''.''" "b \<noteq> ''..''" "CHR ''/'' \<notin> set b"
  shows "Join [manifestDir, b] = ''manifests/'' @ b"
  using assms
  by (simp add: Join_def manifestDir_def Clean_def split_sep_no_sep clean_step_def)

lemma Base_no_sep: "Base p = ''/'' \<or> CHR ''/'' \<notin> set (Base p)"
proof -
  have "CHR ''/'' \<notin> set (rev (takeWhile (\<lambda>c. c \<noteq> CHR ''/'') q))" for q
    by (auto dest: set_takeWhileD)
  then show ?thesis
    by (auto simp: Base_def Let_def)
qed

lemma set_TrimSuffix: "set (TrimSuffix s suf) \<subseteq> set s"
  by (auto simp: TrimSuffix_def dest: in_set_takeD)

lemma TrimSuffix_sep: "TrimSuffix ''/'' ''.template'' = ''/''"
  by (simp add: TrimSuffix_def HasSuffix_def)

lemma rendered_path_ordinary:
  assumes "TrimSuffix (Base (Filename f)) ''.template'' \<notin> {[], ''.'', ''..'', ''/''}"
  shows "rendered_path f = ''manifests/'' @ TrimSuffix (Base (Filename f)) ''.template''
       \<and> CHR ''/'' \<notin> set (TrimSuffix (Base (Filename f)) ''.template'')"
proof -
  let ?b = "TrimSuffix (Base (Filename f)) ''.template''"
  have "Base (Filename f) \<noteq> ''/''" using assms TrimSuffix_sep by auto
  then have "CHR ''/'' \<notin> set (Base (Filename f))" using Base_no_sep by blast
  then have "CHR ''/'' \<notin> set ?b" using set_TrimSuffix by blast
  then show ?thesis using assms by (simp add: rendered_path_def Join_manifestDir)
qed

lemma SortFiles_sorted: "sorted (map Filename (SortFiles fs))"
  by (simp add: SortFiles_def)

lemma SortFiles_mset: "mset (SortFiles fs) = mset fs"
  by (simp add: SortFiles_def)

lemma SortFiles_paths:
  "mset xs = mset ys \<Longrightarrow> map Filename (SortFiles xs) = map Filename (SortFiles ys)"
proof -
  assume a: "mset xs = mset ys"
  have "mset (map Filename (SortFiles xs)) = mset (map Filename (SortFiles ys))"
    using a by (simp add: SortFiles_mset)
  moreover have "sorted (map Filename (SortFiles xs))" "sorted (map Filename (SortFiles ys))"
    by (rule SortFiles_sorted)+
  ultimately show ?thesis
    by (metis properties_for_sort)
qed

lemma SortFiles_distinct:
  assumes "mset xs = mset ys" "distinct (map Filename xs)"
  shows "SortFiles xs = SortFiles ys"
  unfolding SortFiles_def
  using assms by (intro sort_key_eq_sort_key) (simp_all add: distinct_map)

subsection \<open>Auxiliary facts about the loop of Load\<close>

lemma load_scan_absent:
  "\<forall>f \<in> set fs. Filename f \<noteq> kubeSysConfigPath \<Longrightarrow> load_scan x fs obj fnd = Inr (obj, fnd)"
  by (induction fs) auto

lemma load_scan_append:
  "load_scan x (pre @ post) obj fnd =
     (case load_scan x pre obj fnd of
        Inl err \<Rightarrow> Inl err
      | Inr (obj', fnd') \<Rightarrow> load_scan x post obj' fnd')"
  by (induction pre arbitrary: obj fnd) (auto split: sum.splits)

lemma load_scan_found:
  "load_scan x fs obj fnd = Inr (obj', fnd') \<Longrightarrow>
     fnd' = (fnd \<or> (\<exists>f \<in> set fs. Filename f = kubeSysConfigPath))"
  by (induction fs arbitrary: obj fnd) (auto split: sum.splits if_splits)

lemma load_scan_Inl:
  "(\<exists>e. load_scan x fs obj fnd = Inl e) \<longleftrightarrow>
     (\<exists>pre f post obj' fnd' err.
        fs = pre @ f # post \<and> Filename f = kubeSysConfigPath
      \<and> load_scan x pre obj fnd = Inr (obj', fnd')
      \<and> yaml_Unmarshal x (Data f) obj' = Inl err)"
proof (induction fs arbitrary: obj fnd)
  case Nil
  then show ?case by simp
next
  case (Cons g rest)
  show ?case
  proof (cases "Filename g = kubeSysConfigPath")
    case False
    have "(\<exists>e. load_scan x (g # rest) obj fnd = Inl e) = (\<exists>e. load_scan x rest obj fnd = Inl e)"
      using False by simp
    also have "\<dots> = (\<exists>pre f post obj' fnd' err.
        rest = pre @ f # post \<and> Filename f = kubeSysConfigPath
      \<and> load_scan x pre obj fnd = Inr (obj', fnd')
      \<and> yaml_Unmarshal x (Data f) obj' = Inl err)" by (rule Cons.IH)
    also have "\<dots> = (\<exists>pre f post obj' fnd' err.
        g # rest = pre @ f # post \<and> Filename f = kubeSysConfigPath
      \<and> load_scan x pre obj fnd = Inr (obj', fnd')
      \<and> yaml_Unmarshal x (Data f) obj' = Inl err)" (is "?L = ?R")
    proof
      assume ?L
      then obtain pre f post obj' fnd' err where
        "rest = pre @ f # post" "Filename f = kubeSysConfigPath"
        "load_scan x pre obj fnd = Inr (obj', fnd')" "yaml_Unmarshal x (Data f) obj' = Inl err"
        by blast
      then have "g # rest = (g # pre) @ f # post \<and> Filename f = kubeSysConfigPath
        \<and> load_scan x (g # pre) obj fnd = Inr (obj', fnd') \<and> yaml_Unmarshal x (Data f) obj' = Inl err"
        using False by simp
      then show ?R by blast
    next
      assume ?R
      then obtain pre f post obj' fnd' err where p:
        "g # rest = pre @ f # post" "Filename f = kubeSysConfigPath"
        "load_scan x pre obj fnd = Inr (obj', fnd')" "yaml_Unmarshal x (Data f) obj' = Inl err"
        by blast
      from p(1,2) False obtain pre' where "pre = g # pre'" "rest = pre' @ f # post"
        by (cases pre) auto
      with p False show ?L by auto
    qed
    finally show ?thesis .
  next
    case True
    show ?thesis
    proof (cases "yaml_Unmarshal x (Data g) obj")
      case (Inl err)
      have "g # rest = [] @ g # rest \<and> Filename g = kubeSysConfigPath
        \<and> load_scan x [] obj fnd = Inr (obj, fnd) \<and> yaml_Unmarshal x (Data g) obj = Inl err"
        using True Inl by simp
      then have "\<exists>pre f post obj' fnd' err.
        g # rest = pre @ f # post \<and> Filename f = kubeSysConfigPath
      \<and> load_scan x pre obj fnd = Inr (obj', fnd')
      \<and> yaml_Unmarshal x (Data f) obj' = Inl err" by blast
      moreover have "\<exists>e. load_scan x (g # rest) obj fnd = Inl e" using True Inl by simp
      ultimately show ?thesis by blast
    next
      case (Inr obj1)
      have "(\<exists>e. load_scan x (g # rest) obj fnd = Inl e) = (\<exists>e. load_scan x rest obj1 True = Inl e)"
        using True Inr by simp
      also have "\<dots> = (\<exists>pre f post obj' fnd' err.
        rest = pre @ f # post \<and> Filename f = kubeSysConfigPath
      \<and> load_scan x pre obj1 True = Inr (obj', fnd')
      \<and> yaml_Unmarshal x (Data f) obj' = Inl err)" by (rule Cons.IH)
      also have "\<dots> = (\<exists>pre f post obj' fnd' err.
        g # rest = pre @ f # post \<and> Filename f = kubeSysConfigPath
      \<and> load_scan x pre obj fnd = Inr (obj', fnd')
      \<and> yaml_Unmarshal x (Data f) obj' = Inl err)" (is "?L = ?R")
      proof
        assume ?L
        then obtain pre f post obj' fnd' err where
          "rest = pre @ f # post" "Filename f = kubeSysConfigPath"
          "load_scan x pre obj1 True = Inr (obj', fnd')" "yaml_Unmarshal x (Data f) obj' = Inl err"
          by blast
        then have "g # rest = (g # pre) @ f # post \<and> Filename f = kubeSysConfigPath
          \<and> load_scan x (g # pre) obj fnd = Inr (obj', fnd') \<and> yaml_Unmarshal x (Data f) obj' = Inl err"
          using True Inr by simp
        then show ?R by blast
      next
        assume ?R
        then obtain pre f post obj' fnd' err where p:
          "g # rest = pre @ f # post" "Filename f = kubeSysConfigPath"
          "load_scan x pre obj fnd = Inr (obj', fnd')" "yaml_Unmarshal x (Data f) obj' = Inl err"
          by blast
        have "pre \<noteq> []"
        proof
          assume "pre = []"
          with p have "f = g" "obj' = obj" by simp_all
          with p(4) Inr show False by simp
        qed
        then obtain pre' where pre: "pre = g # pre'" "rest = pre' @ f # post"
          using p(1) by (cases pre) auto
        with p(3) True Inr have "load_scan x pre' obj1 True = Inr (obj', fnd')" by simp
        with pre p show ?L by blast
      qed
      finally show ?thesis .
    qed
  qed
qed

lemma load_scan_wrap:
  "load_scan x fs obj fnd = Inl e \<Longrightarrow> \<exists>err. e = Wrap err ''failed to unmarshal cluster-config.yaml''"
  by (induction fs arbitrary: obj fnd) (auto simp: errors_Wrap_def split: sum.splits if_splits)

lemma load_scan_single:
  assumes "filter (\<lambda>f. Filename f = kubeSysConfigPath) fs = [f]"
  shows "load_scan x fs obj fnd =
           (case yaml_Unmarshal x (Data f) obj of
              Inl err \<Rightarrow> Inl (errors_Wrap err ''failed to unmarshal cluster-config.yaml'')
            | Inr obj' \<Rightarrow> Inr (obj', True))"
  using assms
proof (induction fs arbitrary: fnd)
  case Nil
  then show ?case by simp
next
  case (Cons a fs)
  show ?case
  proof (cases "Filename a = kubeSysConfigPath")
    case True
    with Cons.prems have "a = f" "filter (\<lambda>f. Filename f = kubeSysConfigPath) fs = []" by simp_all
    then have "\<forall>g \<in> set fs. Filename g \<noteq> kubeSysConfigPath" by (simp add: filter_empty_conv)
    then show ?thesis using True \<open>a = f\<close> by (simp add: load_scan_absent split: sum.splits)
  next
    case False
    then show ?thesis using Cons by simp
  qed
qed

subsection \<open>Auxiliary facts about Generate and the concrete runs\<close>

lemma redacted_store:
  "fst (redactedInstallConfig x h config) =
     (case VSphere (Platform config) of
        None \<Rightarrow> h
      | Some a \<Rightarrow>
          h\<lparr>cells := (cells h)(top h := (cells h a)\<lparr>Username := [], Password := []\<rparr>),
            top := Suc (top h)\<rparr>)"
  by (cases "VSphere (Platform config)")
     (simp_all add: redactedInstallConfig_def alloc_def Let_def)

lemma cleared_with_secrets: "cleared (with_secrets s u w v) = cleared v"
  by (cases "VSphere (Platform v)") (simp_all add: cleared_def with_secrets_def)

lemma Generate_KubeSysConfig:
  "KubeSysConfig (snd (Generate x h m dependencies)) =
     (case InstallConfig_Config dependencies of
        None \<Rightarrow> KubeSysConfig m
      | Some config \<Rightarrow>
         (case yaml_Marshal_config x (cleared (snapshot h config)) of
            Inl err \<Rightarrow> KubeSysConfig m
          | Inr bytes \<Rightarrow>
              Some (configMap ''kube-system'' ''cluster-config-v1''
                      [''install-config'' \<mapsto> bytes])))"
  by (simp add: Generate_def redacted_bytes Let_def split: option.splits sum.splits)

lemma SortFiles_set: "set (SortFiles fs) = set fs"
  by (simp add: SortFiles_def)

lemma sample_generated_eq:
  "sample_generated =
     [\<lparr>Filename = ''manifests/cluster-config.yaml'',
       Data = ''kind: ConfigMap\<newline>name: cluster-config-v1\<newline>baseDomain: example.com\<newline>pullSecret: \<newline>vCenter: vc1\<newline>username: \<newline>password: \<newline>''\<rparr>,
      \<lparr>Filename = ''manifests/cluster-dns-02-config.yml'', Data = ''d''\<rparr>,
      \<lparr>Filename = ''manifests/cluster-ingress-02-config.yml'', Data = ''i''\<rparr>,
      \<lparr>Filename = ''manifests/cvo-overrides.yaml'', Data = ''uuid-1''\<rparr>]"
  by code_simp

lemma sample_generate_ok:
  "fst (Generate sample_ext sample_store empty_Manifests (sample_dependencies ''{{.CVOClusterID}}'')) = Returned None"
  by code_simp

lemma paths:
  "Join [manifestDir, ''*''] = ''manifests/*''"
  "kubeSysConfigPath = ''manifests/cluster-config.yaml''"
  by code_simp+

subsection \<open>The redactor works on a copy\<close>

text \<open>
  Claim C9. For every install configuration passed to \<open>redactedInstallConfig\<close>, whose
  vSphere pointer is nil or points to an allocated record, the call leaves every
  allocated cell of the store as it was, so the caller's configuration, read through
  its own pointer, is unchanged; the vSphere record is copied to a new cell before its
  user name and password are cleared, and it is the copy that is serialized.
\<close>

theorem redactor_works_on_a_copy:
  assumes "redactedInstallConfig x h config = (h', r)" and "allocated h config"
  shows "(\<forall>a < top h. cells h' a = cells h a)
       \<and> top h \<le> top h'
       \<and> snapshot h' config = snapshot h config
       \<and> r = yaml_Marshal_config x (cleared (snapshot h config))"
proof -
  have h': "h' = fst (redactedInstallConfig x h config)"
    and r: "r = snd (redactedInstallConfig x h config)"
    using assms(1) by simp_all
  from h' have "(\<forall>a < top h. cells h' a = cells h a) \<and> top h \<le> top h'"
    by (cases "VSphere (Platform config)") (simp_all add: redacted_store)
  moreover from h' assms(2) have "snapshot h' config = snapshot h config"
    by (cases "VSphere (Platform config)")
       (simp_all add: redacted_store snapshot_def allocated_def)
  moreover from r have "r = yaml_Marshal_config x (cleared (snapshot h config))"
    by (simp add: redacted_bytes)
  ultimately show ?thesis by blast
qed

theorem redactor_works_on_a_copy_witness:
  "allocated sample_store sample_config
   \<and> cells (fst (redactedInstallConfig sample_ext sample_store sample_config)) 0 =
       \<lparr>Username = ''admin'', Password = ''hunter2'', vsphereRest = ''vc1''\<rparr>
   \<and> snapshot (fst (redactedInstallConfig sample_ext sample_store sample_config)) sample_config =
       snapshot sample_store sample_config
   \<and> snd (redactedInstallConfig sample_ext sample_store sample_config) =
       Inr ''baseDomain: example.com\<newline>pullSecret: \<newline>vCenter: vc1\<newline>username: \<newline>password: \<newline>''"
proof -
  have a: "allocated sample_store sample_config"
    by (simp add: allocated_def sample_store_def sample_config_def)
  have e: "redactedInstallConfig sample_ext sample_store sample_config =
             (fst (redactedInstallConfig sample_ext sample_store sample_config),
              snd (redactedInstallConfig sample_ext sample_store sample_config))"
    by simp
  have c: "yaml_Marshal_config sample_ext (cleared (snapshot sample_store sample_config)) =
       Inr ''baseDomain: example.com\<newline>pullSecret: \<newline>vCenter: vc1\<newline>username: \<newline>password: \<newline>''"
    by (simp add: sample_ext_def cleared_def snapshot_def sample_store_def sample_config_def)
  have t: "top sample_store = 1" "cells sample_store 0 = \<lparr>Username = ''admin'', Password = ''hunter2'', vsphereRest = ''vc1''\<rparr>"
    by (simp_all add: sample_store_def)
  from redactor_works_on_a_copy [OF e a] a c t show ?thesis by simp
qed

subsection \<open>No secret reaches the status record\<close>

text \<open>
  Claim C1. The value that \<open>redactedInstallConfig\<close> hands to the serializer has an
  empty pull secret and, when the vSphere platform is set, an empty user name and
  password. Hence two configurations that differ only in the pull secret and the
  vSphere user name and password give the same redacted bytes, the same status record
  (\<open>KubeSysConfig\<close>), and the same bytes of the file \<open>manifests/cluster-config.yaml\<close>
  in the file lists of two successful runs of \<open>Generate\<close>; this holds for every
  serializer.
\<close>

theorem status_record_independent_of_secrets:
  assumes "snapshot h2 c2 = with_secrets s u w (snapshot h1 c1)"
  shows "snd (redactedInstallConfig x h2 c2) = snd (redactedInstallConfig x h1 c1)
       \<and> snd (redactedInstallConfig x h1 c1) = yaml_Marshal_config x (cleared (snapshot h1 c1))
       \<and> PullSecret (cleared (snapshot h1 c1)) = []
       \<and> (\<forall>p. VSphere (Platform (cleared (snapshot h1 c1))) = Some p \<longrightarrow>
              Username p = [] \<and> Password p = [])
       \<and> KubeSysConfig (snd (Generate x h2 m (dependencies\<lparr>InstallConfig_Config := Some c2\<rparr>))) =
           KubeSysConfig (snd (Generate x h1 m (dependencies\<lparr>InstallConfig_Config := Some c1\<rparr>)))
       \<and> (\<forall>m1 m2.
             Generate x h1 m (dependencies\<lparr>InstallConfig_Config := Some c1\<rparr>) = (Returned None, m1)
           \<and> Generate x h2 m (dependencies\<lparr>InstallConfig_Config := Some c2\<rparr>) = (Returned None, m2)
           \<longrightarrow> (\<exists>object kubeSysConfigData.
                   KubeSysConfig m1 = Some object \<and> KubeSysConfig m2 = Some object
                 \<and> yaml_Marshal_object x object = Inr kubeSysConfigData
                 \<and> \<lparr>Filename = kubeSysConfigPath, Data = kubeSysConfigData\<rparr> \<in> set (FileList m1)
                 \<and> \<lparr>Filename = kubeSysConfigPath, Data = kubeSysConfigData\<rparr> \<in> set (FileList m2)))"
proof -
  have same: "cleared (snapshot h2 c2) = cleared (snapshot h1 c1)"
    using assms by (simp add: cleared_with_secrets)
  have 1: "snd (redactedInstallConfig x h2 c2) = snd (redactedInstallConfig x h1 c1)"
    by (simp add: redacted_bytes same)
  have 2: "snd (redactedInstallConfig x h1 c1) = yaml_Marshal_config x (cleared (snapshot h1 c1))"
    by (rule redacted_bytes)
  have 3: "PullSecret (cleared (snapshot h1 c1)) = []"
    by (simp add: cleared_def)
  have 4: "\<forall>p. VSphere (Platform (cleared (snapshot h1 c1))) = Some p \<longrightarrow>
              Username p = [] \<and> Password p = []"
    by (auto simp: cleared_def)
  have 5: "KubeSysConfig (snd (Generate x h2 m (dependencies\<lparr>InstallConfig_Config := Some c2\<rparr>))) =
           KubeSysConfig (snd (Generate x h1 m (dependencies\<lparr>InstallConfig_Config := Some c1\<rparr>)))"
    by (simp add: Generate_KubeSysConfig same)
  have 6: "\<exists>object kubeSysConfigData.
                   KubeSysConfig m1 = Some object \<and> KubeSysConfig m2 = Some object
                 \<and> yaml_Marshal_object x object = Inr kubeSysConfigData
                 \<and> \<lparr>Filename = kubeSysConfigPath, Data = kubeSysConfigData\<rparr> \<in> set (FileList m1)
                 \<and> \<lparr>Filename = kubeSysConfigPath, Data = kubeSysConfigData\<rparr> \<in> set (FileList m2)"
    if g1: "Generate x h1 m (dependencies\<lparr>InstallConfig_Config := Some c1\<rparr>) = (Returned None, m1)"
    and g2: "Generate x h2 m (dependencies\<lparr>InstallConfig_Config := Some c2\<rparr>) = (Returned None, m2)"
    for m1 m2
  proof -
    from g1 obtain bytes1 d1 bk1 where a1:
      "yaml_Marshal_config x (cleared (snapshot h1 c1)) = Inr bytes1"
      "yaml_Marshal_object x (configMap ''kube-system'' ''cluster-config-v1'' [''install-config'' \<mapsto> bytes1]) = Inr d1"
      "m1 = \<lparr>KubeSysConfig = Some (configMap ''kube-system'' ''cluster-config-v1'' [''install-config'' \<mapsto> bytes1]),
             FileList = SortFiles (collected \<lparr>Filename = kubeSysConfigPath, Data = d1\<rparr> bk1
               (dependencies\<lparr>InstallConfig_Config := Some c1\<rparr>))\<rparr>"
      unfolding Generate_Returned_None by auto
    from g2 obtain bytes2 d2 bk2 where a2:
      "yaml_Marshal_config x (cleared (snapshot h2 c2)) = Inr bytes2"
      "yaml_Marshal_object x (configMap ''kube-system'' ''cluster-config-v1'' [''install-config'' \<mapsto> bytes2]) = Inr d2"
      "m2 = \<lparr>KubeSysConfig = Some (configMap ''kube-system'' ''cluster-config-v1'' [''install-config'' \<mapsto> bytes2]),
             FileList = SortFiles (collected \<lparr>Filename = kubeSysConfigPath, Data = d2\<rparr> bk2
               (dependencies\<lparr>InstallConfig_Config := Some c2\<rparr>))\<rparr>"
      unfolding Generate_Returned_None by auto
    from a1(1) a2(1) same have b: "bytes2 = bytes1" by simp
    with a1(2) a2(2) have d: "d2 = d1" by simp
    show ?thesis
      using a1 a2 b d by (auto simp: SortFiles_set collected_def)
  qed
  from 1 2 3 4 5 6 show ?thesis by blast
qed

theorem status_record_independent_of_secrets_witness:
  "snapshot sample_store2 sample_config2 =
     with_secrets ''0ther'' ''root'' ''12345'' (snapshot sample_store sample_config)
   \<and> snd (redactedInstallConfig sample_ext sample_store2 sample_config2) =
       Inr ''baseDomain: example.com\<newline>pullSecret: \<newline>vCenter: vc1\<newline>username: \<newline>password: \<newline>''
   \<and> snd (redactedInstallConfig sample_ext sample_store sample_config) =
       Inr ''baseDomain: example.com\<newline>pullSecret: \<newline>vCenter: vc1\<newline>username: \<newline>password: \<newline>''"
proof -
  have a: "snapshot sample_store2 sample_config2 =
     with_secrets ''0ther'' ''root'' ''12345'' (snapshot sample_store sample_config)"
    by (simp add: snapshot_def with_secrets_def sample_store_def sample_store2_def
          sample_config_def sample_config2_def)
  have c: "yaml_Marshal_config sample_ext (cleared (snapshot sample_store sample_config)) =
       Inr ''baseDomain: example.com\<newline>pullSecret: \<newline>vCenter: vc1\<newline>username: \<newline>password: \<newline>''"
    by (simp add: sample_ext_def cleared_def snapshot_def sample_store_def sample_config_def)
  from status_record_independent_of_secrets [OF a, of sample_ext] a c show ?thesis by simp
qed

subsection \<open>Auxiliary facts about template failures\<close>

lemma all_bootkube_assets: "a \<in> set bootkube_assets"
  by (cases a) (simp_all add: bootkube_assets_def)

lemma applyTemplateData_fails:
  "template_Parse x customTmplFuncs d = Inl err \<or>
   (\<exists>t. template_Parse x customTmplFuncs d = Inr t \<and> template_Execute x t td = Inl err)
   \<Longrightarrow> applyTemplateData x d td = Inl (TemplatePanic err)"
  by (auto simp: applyTemplateData_def)

lemma generateBootKubeManifests_Inl_template:
  assumes "InstallConfig_Config dependencies = Some config"
    and "ControlPlane config = Some pool"
    and "Replicas pool = Some replicas"
    and "etcdEndpointHostnames replicas = Inr names"
    and "f \<in> set (template_files dependencies)"
    and "applyTemplateData x (Data f) (bootkube_templateData x dependencies config names) = Inl p"
  shows "\<exists>err. generateBootKubeManifests x dependencies = Inl (TemplatePanic err)"
proof (cases "generateBootKubeManifests x dependencies")
  case (Inl q)
  then have "render_assets x (bootkube_templateData x dependencies config names)
               (bootkube_Files dependencies) [] bootkube_assets = Inl q"
    using assms(1-4) by (simp add: generateBootKubeManifests_def)
  from render_assets_Inl [OF this] Inl show ?thesis by auto
next
  case (Inr bootkube)
  then have "\<exists>b. applyTemplateData x (Data f) (bootkube_templateData x dependencies config names) = Inr b"
    using assms(1-5) unfolding generateBootKubeManifests_Inr by auto
  with assms(6) show ?thesis by simp
qed

lemma Generate_Panicked:
  assumes "InstallConfig_Config dependencies = Some config"
    and "snd (redactedInstallConfig x h config) = Inr bytes"
    and "yaml_Marshal_object x
           (configMap ''kube-system'' ''cluster-config-v1'' [''install-config'' \<mapsto> bytes]) = Inr d"
    and "generateBootKubeManifests x dependencies = Inl p"
  shows "fst (Generate x h m dependencies) = Panicked p"
  using assms by (simp add: Generate_def Let_def)

lemma failing_generate:
  "fst (Generate failing_ext sample_store empty_Manifests (sample_dependencies ''{{.CVOClusterID}}'')) =
     Returned (Some (Wrap (Err ''yaml: marshal error'')
        ''failed to create kube-system/cluster-config-v1 configmap''))"
  by code_simp

lemma sample_facts:
  "InstallConfig_Config (sample_dependencies body) = Some sample_config"
  "snd (redactedInstallConfig sample_ext sample_store sample_config) =
     Inr ''baseDomain: example.com\<newline>pullSecret: \<newline>vCenter: vc1\<newline>username: \<newline>password: \<newline>''"
  "yaml_Marshal_object sample_ext
     (configMap ''kube-system'' ''cluster-config-v1''
        [''install-config'' \<mapsto> ''baseDomain: example.com\<newline>pullSecret: \<newline>vCenter: vc1\<newline>username: \<newline>password: \<newline>'']) =
     Inr ''kind: ConfigMap\<newline>name: cluster-config-v1\<newline>baseDomain: example.com\<newline>pullSecret: \<newline>vCenter: vc1\<newline>username: \<newline>password: \<newline>''"
  "ControlPlane sample_config = Some \<lparr>Replicas = Some 3\<rparr>"
  "etcdEndpointHostnames 3 = Inr [''etcd-0'', ''etcd-1'', ''etcd-2'']"
  "\<lparr>Filename = ''cvo-overrides.yaml.template'', Data = body\<rparr>
     \<in> set (bootkube_Files (sample_dependencies body) CVOOverrides)"
  "\<lparr>Filename = ''cvo-overrides.yaml.template'', Data = body\<rparr>
     \<in> set (template_files (sample_dependencies body))"
proof -
  show "InstallConfig_Config (sample_dependencies body) = Some sample_config"
    by (simp add: sample_dependencies_def)
  show "snd (redactedInstallConfig sample_ext sample_store sample_config) =
     Inr ''baseDomain: example.com\<newline>pullSecret: \<newline>vCenter: vc1\<newline>username: \<newline>password: \<newline>''"
    by (simp add: redacted_bytes sample_ext_def cleared_def snapshot_def sample_store_def
          sample_config_def)
  show "yaml_Marshal_object sample_ext
     (configMap ''kube-system'' ''cluster-config-v1''
        [''install-config'' \<mapsto> ''baseDomain: example.com\<newline>pullSecret: \<newline>vCenter: vc1\<newline>username: \<newline>password: \<newline>'']) =
     Inr ''kind: ConfigMap\<newline>name: cluster-config-v1\<newline>baseDomain: example.com\<newline>pullSecret: \<newline>vCenter: vc1\<newline>username: \<newline>password: \<newline>''"
    by (simp add: sample_ext_def configMap_def)
  show "ControlPlane sample_config = Some \<lparr>Replicas = Some 3\<rparr>"
    by (simp add: sample_config_def)
  show "etcdEndpointHostnames 3 = Inr [''etcd-0'', ''etcd-1'', ''etcd-2'']"
    by code_simp
  show "\<lparr>Filename = ''cvo-overrides.yaml.template'', Data = body\<rparr>
     \<in> set (bootkube_Files (sample_dependencies body) CVOOverrides)"
    by (simp add: sample_dependencies_def)
  then show "\<lparr>Filename = ''cvo-overrides.yaml.template'', Data = body\<rparr>
     \<in> set (template_files (sample_dependencies body))"
    by (simp add: template_files_def bootkube_assets_def)
qed

subsection \<open>A template failure is a panic\<close>

text \<open>
  Claim C3 says that a template failure reaches the caller of \<open>Generate\<close> as an error
  value. It does not: with a template whose body is the unclosed action \<^verbatim>\<open>{{\<close>, and
  with one that names an unknown field, \<open>Generate\<close> panics.
\<close>

theorem template_failure_is_a_panic_counterexample:
  "fst (Generate sample_ext sample_store empty_Manifests (sample_dependencies ''{{'')) =
       Panicked (TemplatePanic (Err ''template: unclosed action''))
   \<and> fst (Generate sample_ext sample_store empty_Manifests (sample_dependencies ''{{.Missing}}'')) =
       Panicked (TemplatePanic (Err ''template: cannot evaluate field Missing''))"
  by code_simp

text \<open>
  Claim C3, amended. For every template body and bound-value schema, a failure to
  parse the template or to execute it makes \<open>applyTemplateData\<close> panic with the
  error of the engine; when the redaction and the serialization of the status record
  have succeeded, the panic unwinds through \<open>generateBootKubeManifests\<close> and
  \<open>Generate\<close>, which aborts the whole aggregation. The only errors that \<open>Generate\<close>
  returns are the wrapped failures of the redaction and of the serialization of the
  status record.
\<close>

theorem template_failure_panics_through_Generate:
  assumes "InstallConfig_Config dependencies = Some config"
    and "snd (redactedInstallConfig x h config) = Inr bytes"
    and "yaml_Marshal_object x
           (configMap ''kube-system'' ''cluster-config-v1'' [''install-config'' \<mapsto> bytes]) = Inr d"
    and "ControlPlane config = Some pool"
    and "Replicas pool = Some replicas"
    and "etcdEndpointHostnames replicas = Inr names"
    and "f \<in> set (template_files dependencies)"
    and "template_Parse x customTmplFuncs (Data f) = Inl err \<or>
         (\<exists>t. template_Parse x customTmplFuncs (Data f) = Inr t \<and>
              template_Execute x t (bootkube_templateData x dependencies config names) = Inl err)"
  shows "applyTemplateData x (Data f) (bootkube_templateData x dependencies config names) =
           Inl (TemplatePanic err)
       \<and> (\<exists>err'. generateBootKubeManifests x dependencies = Inl (TemplatePanic err')
                \<and> fst (Generate x h m dependencies) = Panicked (TemplatePanic err'))
       \<and> (\<forall>e m'. Generate x h m dependencies = (Returned (Some e), m') \<longrightarrow>
             (\<exists>cause. e = Wrap cause ''failed to redact install-config''
                    \<or> e = Wrap cause ''failed to create kube-system/cluster-config-v1 configmap''))"
proof -
  have a: "applyTemplateData x (Data f) (bootkube_templateData x dependencies config names) =
           Inl (TemplatePanic err)"
    using assms(8) by (rule applyTemplateData_fails)
  obtain err' where g: "generateBootKubeManifests x dependencies = Inl (TemplatePanic err')"
    using generateBootKubeManifests_Inl_template [OF assms(1) assms(4-7) a] by blast
  have p: "fst (Generate x h m dependencies) = Panicked (TemplatePanic err')"
    using assms(1-3) g by (rule Generate_Panicked)
  have r: "\<forall>e m'. Generate x h m dependencies = (Returned (Some e), m') \<longrightarrow>
             (\<exists>cause. e = Wrap cause ''failed to redact install-config''
                    \<or> e = Wrap cause ''failed to create kube-system/cluster-config-v1 configmap'')"
    using Generate_Returned_Some by blast
  from a g p r show ?thesis by blast
qed

theorem template_failure_panics_through_Generate_witness:
  "template_Parse sample_ext customTmplFuncs ''{{'' = Inl (Err ''template: unclosed action'')
   \<and> applyTemplateData sample_ext ''{{''
       (bootkube_templateData sample_ext (sample_dependencies ''{{'') sample_config
          [''etcd-0'', ''etcd-1'', ''etcd-2'']) =
       Inl (TemplatePanic (Err ''template: unclosed action''))"
proof -
  have p: "template_Parse sample_ext customTmplFuncs
             (Data \<lparr>Filename = ''cvo-overrides.yaml.template'', Data = ''{{''\<rparr>) =
             Inl (Err ''template: unclosed action'')
         \<or> (\<exists>t. template_Parse sample_ext customTmplFuncs
                   (Data \<lparr>Filename = ''cvo-overrides.yaml.template'', Data = ''{{''\<rparr>) = Inr t
              \<and> template_Execute sample_ext t
                  (bootkube_templateData sample_ext (sample_dependencies ''{{'') sample_config
                     [''etcd-0'', ''etcd-1'', ''etcd-2'']) = Inl (Err ''template: unclosed action''))"
    by (simp add: sample_ext_def)
  have r: "Replicas \<lparr>Replicas = Some 3\<rparr> = Some (3 :: go_int)" by simp
  from template_failure_panics_through_Generate
         [OF sample_facts(1) sample_facts(2) sample_facts(3) sample_facts(4) r sample_facts(5)
             sample_facts(7) p]
  show ?thesis by (simp add: sample_ext_def)
qed

subsection \<open>An error of Generate leaves the file list alone\<close>

text \<open>
  Claim C6. Whenever \<open>Generate\<close> returns an error, which is a failure of the redaction
  or of the serialization of the status record, it has returned before any file was
  put in the file list: \<open>FileList\<close> is what it was before the call, so for an asset
  that held no files \<open>Files\<close> returns none.
\<close>

theorem Generate_error_keeps_file_list:
  assumes "Generate x h m dependencies = (Returned (Some e), m')"
  shows "FileList m' = FileList m
       \<and> Files m' = Files m
       \<and> (FileList m = [] \<longrightarrow> Files m' = [])
       \<and> (\<exists>cause. e = Wrap cause ''failed to redact install-config''
                 \<or> e = Wrap cause ''failed to create kube-system/cluster-config-v1 configmap'')"
  using Generate_Returned_Some [OF assms] by (auto simp: Files_def)

theorem Generate_error_keeps_file_list_witness:
  "fst (Generate failing_ext sample_store empty_Manifests (sample_dependencies ''{{.CVOClusterID}}'')) =
     Returned (Some (Wrap (Err ''yaml: marshal error'')
        ''failed to create kube-system/cluster-config-v1 configmap''))
   \<and> Files (snd (Generate failing_ext sample_store empty_Manifests
                   (sample_dependencies ''{{.CVOClusterID}}''))) = []"
proof -
  have e: "Generate failing_ext sample_store empty_Manifests (sample_dependencies ''{{.CVOClusterID}}'') =
     (Returned (Some (Wrap (Err ''yaml: marshal error'')
        ''failed to create kube-system/cluster-config-v1 configmap'')),
      snd (Generate failing_ext sample_store empty_Manifests (sample_dependencies ''{{.CVOClusterID}}'')))"
    using failing_generate by (metis prod.collapse)
  from Generate_error_keeps_file_list [OF e] failing_generate show ?thesis
    by (simp add: empty_Manifests_def Files_def)
qed

subsection \<open>Auxiliary facts about successful runs and about Load\<close>

lemma Generate_outcome_independent:
  "fst (Generate x h m1 dependencies) = fst (Generate x h m2 dependencies)"
  by (simp add: Generate_def Let_def split: option.splits sum.splits)

lemma Load_record:
  "m\<lparr>FileList := fs, KubeSysConfig := Some obj\<rparr> = \<lparr>KubeSysConfig = Some obj, FileList = fs\<rparr>"
  by (cases m) simp

lemma Load_single:
  assumes "FetchByPattern ''manifests/*'' = Inr fs"
    and "filter (\<lambda>f. Filename f = ''manifests/cluster-config.yaml'') fs = [f]"
  shows "Load x FetchByPattern m =
           (case yaml_Unmarshal x (Data f) zero_configurationObject of
              Inl err \<Rightarrow> ((False, Some (Wrap err ''failed to unmarshal cluster-config.yaml'')), m)
            | Inr obj \<Rightarrow> ((True, None), \<lparr>KubeSysConfig = Some obj, FileList = SortFiles fs\<rparr>))"
proof -
  have "fs \<noteq> []" using assms(2) by auto
  moreover have "load_scan x fs zero_configurationObject False =
           (case yaml_Unmarshal x (Data f) zero_configurationObject of
              Inl err \<Rightarrow> Inl (errors_Wrap err ''failed to unmarshal cluster-config.yaml'')
            | Inr obj' \<Rightarrow> Inr (obj', True))"
    using assms(2) by (intro load_scan_single) (simp add: paths)
  ultimately show ?thesis
    using assms(1)
    by (simp add: Load_def paths errors_Wrap_def Load_record Let_def split: sum.splits)
qed

lemma sample_generate:
  "Generate sample_ext sample_store empty_Manifests (sample_dependencies ''{{.CVOClusterID}}'') =
     (Returned None,
      snd (Generate sample_ext sample_store empty_Manifests (sample_dependencies ''{{.CVOClusterID}}'')))"
  using sample_generate_ok by (metis prod.collapse)

lemma Generate_Returned_NoneD:
  assumes "Generate x h m dependencies = (Returned None, m')"
  shows "\<exists>status bootkube.
           generateBootKubeManifests x dependencies = Inr bootkube
         \<and> Filename status = kubeSysConfigPath
         \<and> FileList m' = SortFiles (collected status bootkube dependencies)"
proof -
  from assms obtain d bootkube where
    "generateBootKubeManifests x dependencies = Inr bootkube"
    "FileList m' = SortFiles (collected \<lparr>Filename = kubeSysConfigPath, Data = d\<rparr> bootkube dependencies)"
    unfolding Generate_Returned_None by auto
  moreover have "Filename \<lparr>Filename = kubeSysConfigPath, Data = d\<rparr> = kubeSysConfigPath"
    by simp
  ultimately show ?thesis by blast
qed

lemma status_in_generated:
  assumes "Generate x h m dependencies = (Returned None, m')"
  shows "\<exists>d object. \<lparr>Filename = kubeSysConfigPath, Data = d\<rparr> \<in> set (FileList m')
           \<and> yaml_Marshal_object x object = Inr d"
  using assms unfolding Generate_Returned_None
  by (auto simp: SortFiles_set collected_def)

lemma filter_distinct_key:
  assumes "distinct (map k fs)" "f \<in> set fs"
  shows "filter (\<lambda>g. k g = k f) fs = [f]"
  using assms
proof (induction fs)
  case Nil
  then show ?case by simp
next
  case (Cons a fs)
  show ?case
  proof (cases "a = f")
    case True
    with Cons.prems have "k f \<notin> k ` set fs" by simp
    then have "\<forall>g \<in> set fs. k g \<noteq> k f" by (metis imageI)
    then have "filter (\<lambda>g. k g = k f) fs = []" by (simp add: filter_empty_conv)
    with True show ?thesis by simp
  next
    case False
    with Cons.prems have "f \<in> set fs" "k a \<noteq> k f" by auto
    with Cons show ?thesis by simp
  qed
qed

lemma sample_fetch_eq: "sample_fetch ''manifests/*'' = Inr (rev sample_generated)"
  by (simp add: sample_fetch_def)

subsection \<open>Templated files are placed in the manifest directory\<close>

text \<open>
  Claim C10. When \<open>Generate\<close> succeeds, every file \<open>f\<close> of every templated bootkube
  dependency has an artifact in the files of the asset whose path is \<open>manifestDir\<close>
  joined with the base name of \<open>f\<close> without a trailing \<open>.template\<close>, and whose content
  is the template \<open>Data f\<close> applied to the bound values. For a base name that is a
  file name (not empty, not \<open>.\<close>, \<open>..\<close> or \<open>/\<close> once stripped) this path is
  \<open>manifests/\<close> followed by that name, which has no further separator.
\<close>

theorem templated_files_land_in_manifest_dir:
  assumes "Generate x h m dependencies = (Returned None, m')"
    and "f \<in> set (bootkube_Files dependencies a)"
  shows "\<exists>config pool replicas names out.
           InstallConfig_Config dependencies = Some config
         \<and> ControlPlane config = Some pool
         \<and> Replicas pool = Some replicas
         \<and> etcdEndpointHostnames replicas = Inr names
         \<and> applyTemplateData x (Data f) (bootkube_templateData x dependencies config names) = Inr out
         \<and> \<lparr>Filename = Join [manifestDir, TrimSuffix (Base (Filename f)) ''.template''],
             Data = out\<rparr> \<in> set (Files m')
         \<and> (TrimSuffix (Base (Filename f)) ''.template'' \<notin> {[], ''.'', ''..'', ''/''} \<longrightarrow>
              Join [manifestDir, TrimSuffix (Base (Filename f)) ''.template''] =
                ''manifests/'' @ TrimSuffix (Base (Filename f)) ''.template''
              \<and> CHR ''/'' \<notin> set (TrimSuffix (Base (Filename f)) ''.template''))"
proof -
  from assms(1) obtain status bootkube where
    g: "generateBootKubeManifests x dependencies = Inr bootkube"
    and m': "FileList m' = SortFiles (collected status bootkube dependencies)"
    unfolding Generate_Returned_None by auto
  from g obtain config pool replicas names where
    c: "InstallConfig_Config dependencies = Some config" "ControlPlane config = Some pool"
       "Replicas pool = Some replicas" "etcdEndpointHostnames replicas = Inr names"
    and ok: "\<forall>f \<in> set (template_files dependencies). \<exists>b.
            applyTemplateData x (Data f) (bootkube_templateData x dependencies config names) = Inr b"
    and bk: "bootkube = map (rendered x (bootkube_templateData x dependencies config names))
                      (template_files dependencies)"
    unfolding generateBootKubeManifests_Inr by auto
  have ftf: "f \<in> set (template_files dependencies)"
    using assms(2) all_bootkube_assets [of a] by (auto simp: template_files_def)
  with ok obtain out where
    out: "applyTemplateData x (Data f) (bootkube_templateData x dependencies config names) = Inr out"
    by blast
  have "rendered x (bootkube_templateData x dependencies config names) f \<in> set bootkube"
    using ftf bk by simp
  then have "\<lparr>Filename = Join [manifestDir, TrimSuffix (Base (Filename f)) ''.template''],
             Data = out\<rparr> \<in> set bootkube"
    using out by (simp add: rendered_def rendered_path_def)
  then have mem: "\<lparr>Filename = Join [manifestDir, TrimSuffix (Base (Filename f)) ''.template''],
             Data = out\<rparr> \<in> set (Files m')"
    by (simp add: Files_def m' SortFiles_set collected_def)
  have path: "TrimSuffix (Base (Filename f)) ''.template'' \<notin> {[], ''.'', ''..'', ''/''} \<longrightarrow>
              Join [manifestDir, TrimSuffix (Base (Filename f)) ''.template''] =
                ''manifests/'' @ TrimSuffix (Base (Filename f)) ''.template''
              \<and> CHR ''/'' \<notin> set (TrimSuffix (Base (Filename f)) ''.template'')"
    using rendered_path_ordinary [of f] by (simp add: rendered_path_def)
  from c out mem path show ?thesis by blast
qed

theorem templated_files_land_in_manifest_dir_witness:
  "\<lparr>Filename = ''manifests/cvo-overrides.yaml'', Data = ''uuid-1''\<rparr>
     \<in> set (Files (snd (Generate sample_ext sample_store empty_Manifests
                          (sample_dependencies ''{{.CVOClusterID}}''))))
   \<and> Join [manifestDir, TrimSuffix (Base ''cvo-overrides.yaml.template'') ''.template''] =
       ''manifests/cvo-overrides.yaml''"
proof -
  have j: "Join [manifestDir, TrimSuffix (Base ''cvo-overrides.yaml.template'') ''.template''] =
       ''manifests/cvo-overrides.yaml''"
    by code_simp
  have a: "applyTemplateData sample_ext ''{{.CVOClusterID}}''
             (bootkube_templateData sample_ext (sample_dependencies ''{{.CVOClusterID}}'') config names) =
           Inr ''uuid-1''" for config names
    by (simp add: applyTemplateData_def sample_ext_def bootkube_templateData_def
          sample_dependencies_def)
  from templated_files_land_in_manifest_dir [OF sample_generate sample_facts(6)]
  show ?thesis using j a by auto
qed

subsection \<open>Determinism and order of the merged file list\<close>

text \<open>
  Claim C5. The outcome of \<open>Generate\<close> depends on the dependencies only, not on what
  the asset held before: two runs on the same dependencies end alike, and after a
  successful run they leave the same asset, hence the same file list, byte for byte.
  That list is sorted by path. It is the sorted list of the collected files, and
  collecting them in any other order gives the same sequence of paths, and the same
  list of files when the paths are distinct.
\<close>

theorem Generate_is_deterministic_and_sorted:
  "fst (Generate x h m1 dependencies) = fst (Generate x h m2 dependencies)
   \<and> (Generate x h m1 dependencies = (Returned None, m') \<longrightarrow>
        Generate x h m2 dependencies = (Returned None, m')
      \<and> sorted (map Filename (FileList m'))
      \<and> (\<exists>status bootkube.
            generateBootKubeManifests x dependencies = Inr bootkube
          \<and> Filename status = kubeSysConfigPath
          \<and> FileList m' = SortFiles (collected status bootkube dependencies)
          \<and> (\<forall>files. mset files = mset (collected status bootkube dependencies) \<longrightarrow>
                map Filename (SortFiles files) = map Filename (FileList m')
              \<and> (distinct (map Filename files) \<longrightarrow> SortFiles files = FileList m'))))"
proof (intro conjI impI)
  show "fst (Generate x h m1 dependencies) = fst (Generate x h m2 dependencies)"
    by (rule Generate_outcome_independent)
next
  assume g: "Generate x h m1 dependencies = (Returned None, m')"
  then show "Generate x h m2 dependencies = (Returned None, m')"
    unfolding Generate_Returned_None .
  from Generate_Returned_NoneD [OF g] obtain status bootkube where
    b: "generateBootKubeManifests x dependencies = Inr bootkube"
    and s: "Filename status = kubeSysConfigPath"
    and m': "FileList m' = SortFiles (collected status bootkube dependencies)"
    by blast
  show "sorted (map Filename (FileList m'))"
    by (simp add: m' SortFiles_sorted)
  have "\<forall>files. mset files = mset (collected status bootkube dependencies) \<longrightarrow>
                map Filename (SortFiles files) = map Filename (FileList m')
              \<and> (distinct (map Filename files) \<longrightarrow> SortFiles files = FileList m')"
    using SortFiles_paths SortFiles_distinct m' by metis
  with b s m' show "\<exists>status bootkube.
            generateBootKubeManifests x dependencies = Inr bootkube
          \<and> Filename status = kubeSysConfigPath
          \<and> FileList m' = SortFiles (collected status bootkube dependencies)
          \<and> (\<forall>files. mset files = mset (collected status bootkube dependencies) \<longrightarrow>
                map Filename (SortFiles files) = map Filename (FileList m')
              \<and> (distinct (map Filename files) \<longrightarrow> SortFiles files = FileList m'))"
    by blast
qed

theorem Generate_is_deterministic_and_sorted_witness:
  "fst (Generate sample_ext sample_store empty_Manifests (sample_dependencies ''{{.CVOClusterID}}'')) =
     Returned None
   \<and> map Filename sample_generated =
       [''manifests/cluster-config.yaml'', ''manifests/cluster-dns-02-config.yml'',
        ''manifests/cluster-ingress-02-config.yml'', ''manifests/cvo-overrides.yaml'']
   \<and> sorted (map Filename sample_generated)
   \<and> Generate sample_ext sample_store \<lparr>KubeSysConfig = None, FileList = sample_generated\<rparr>
         (sample_dependencies ''{{.CVOClusterID}}'') =
       Generate sample_ext sample_store empty_Manifests (sample_dependencies ''{{.CVOClusterID}}'')"
proof -
  from Generate_is_deterministic_and_sorted
         [of sample_ext sample_store empty_Manifests "sample_dependencies ''{{.CVOClusterID}}''"
             "\<lparr>KubeSysConfig = None, FileList = sample_generated\<rparr>"
             "snd (Generate sample_ext sample_store empty_Manifests
                     (sample_dependencies ''{{.CVOClusterID}}''))"]
       sample_generate
  have "Generate sample_ext sample_store \<lparr>KubeSysConfig = None, FileList = sample_generated\<rparr>
         (sample_dependencies ''{{.CVOClusterID}}'') =
       Generate sample_ext sample_store empty_Manifests (sample_dependencies ''{{.CVOClusterID}}'')"
    and "sorted (map Filename sample_generated)"
    by (simp_all add: sample_generated_def)
  then show ?thesis
    using sample_generate_ok by (simp add: sample_generated_eq)
qed

subsection \<open>Load: absence is not an error, malformed presence is\<close>

text \<open>
  Claim C4. If fetching fails, \<open>Load\<close> returns that error. If no fetched file has the
  path \<open>manifests/cluster-config.yaml\<close>, in particular if no file matches the
  pattern, \<open>Load\<close> returns not found and no error, and leaves the asset alone. After
  a successful fetch \<open>Load\<close> returns an error exactly when a file at that path is
  present and the parser fails on it (in the object filled by the files at that path
  before it). With one file at that path, \<open>Load\<close> fails with the wrapped error of the
  parser on it, or succeeds with the parsed status record and the sorted files.
\<close>

theorem Load_tells_absence_from_malformed:
  "(FetchByPattern ''manifests/*'' = Inl err \<longrightarrow>
      Load x FetchByPattern m = ((False, Some err), m))
   \<and> (FetchByPattern ''manifests/*'' = Inr fs
        \<and> (\<forall>f \<in> set fs. Filename f \<noteq> ''manifests/cluster-config.yaml'') \<longrightarrow>
      Load x FetchByPattern m = ((False, None), m))
   \<and> (FetchByPattern ''manifests/*'' = Inr fs \<longrightarrow>
      ((\<exists>e. snd (fst (Load x FetchByPattern m)) = Some e) \<longleftrightarrow>
       (\<exists>pre f post obj fnd e.
          fs = pre @ f # post \<and> Filename f = ''manifests/cluster-config.yaml''
        \<and> load_scan x pre zero_configurationObject False = Inr (obj, fnd)
        \<and> yaml_Unmarshal x (Data f) obj = Inl e)))
   \<and> (FetchByPattern ''manifests/*'' = Inr fs
        \<and> filter (\<lambda>f. Filename f = ''manifests/cluster-config.yaml'') fs = [f] \<longrightarrow>
      Load x FetchByPattern m =
        (case yaml_Unmarshal x (Data f) zero_configurationObject of
           Inl e \<Rightarrow> ((False, Some (Wrap e ''failed to unmarshal cluster-config.yaml'')), m)
         | Inr obj \<Rightarrow> ((True, None), \<lparr>KubeSysConfig = Some obj, FileList = SortFiles fs\<rparr>)))"
proof (intro conjI impI)
  assume "FetchByPattern ''manifests/*'' = Inl err"
  then show "Load x FetchByPattern m = ((False, Some err), m)"
    by (simp add: Load_def paths)
next
  assume "FetchByPattern ''manifests/*'' = Inr fs
        \<and> (\<forall>f \<in> set fs. Filename f \<noteq> ''manifests/cluster-config.yaml'')"
  then show "Load x FetchByPattern m = ((False, None), m)"
    by (simp add: Load_def paths load_scan_absent)
next
  assume f: "FetchByPattern ''manifests/*'' = Inr fs"
  have "(\<exists>e. snd (fst (Load x FetchByPattern m)) = Some e) \<longleftrightarrow>
        (\<exists>e. load_scan x fs zero_configurationObject False = Inl e)"
    using f by (auto simp: Load_def paths Let_def split: sum.splits)
  then show "(\<exists>e. snd (fst (Load x FetchByPattern m)) = Some e) \<longleftrightarrow>
       (\<exists>pre f post obj fnd e.
          fs = pre @ f # post \<and> Filename f = ''manifests/cluster-config.yaml''
        \<and> load_scan x pre zero_configurationObject False = Inr (obj, fnd)
        \<and> yaml_Unmarshal x (Data f) obj = Inl e)"
    unfolding load_scan_Inl paths .
next
  assume "FetchByPattern ''manifests/*'' = Inr fs
        \<and> filter (\<lambda>f. Filename f = ''manifests/cluster-config.yaml'') fs = [f]"
  then show "Load x FetchByPattern m =
        (case yaml_Unmarshal x (Data f) zero_configurationObject of
           Inl e \<Rightarrow> ((False, Some (Wrap e ''failed to unmarshal cluster-config.yaml'')), m)
         | Inr obj \<Rightarrow> ((True, None), \<lparr>KubeSysConfig = Some obj, FileList = SortFiles fs\<rparr>))"
    using Load_single by blast
qed

theorem Load_tells_absence_from_malformed_witness:
  "Load sample_ext (\<lambda>pattern. Inr []) empty_Manifests = ((False, None), empty_Manifests)
   \<and> Load sample_ext (\<lambda>pattern. Inl (Err ''read error'')) empty_Manifests =
       ((False, Some (Err ''read error'')), empty_Manifests)
   \<and> Load sample_ext
         (\<lambda>pattern. Inr [\<lparr>Filename = ''manifests/cluster-config.yaml'', Data = ''garbage''\<rparr>])
         empty_Manifests =
       ((False, Some (Wrap (Err ''yaml: unmarshal error'') ''failed to unmarshal cluster-config.yaml'')),
        empty_Manifests)"
proof -
  have u: "yaml_Unmarshal sample_ext ''garbage'' zero_configurationObject =
             Inl (Err ''yaml: unmarshal error'')"
    by (simp add: sample_ext_def)
  from Load_tells_absence_from_malformed
         [of "\<lambda>pattern. Inr []" "Err ''x''" sample_ext empty_Manifests "[]"]
  have 1: "Load sample_ext (\<lambda>pattern. Inr []) empty_Manifests = ((False, None), empty_Manifests)"
    by simp
  from Load_tells_absence_from_malformed
         [of "\<lambda>pattern. Inl (Err ''read error'')" "Err ''read error''" sample_ext empty_Manifests]
  have 2: "Load sample_ext (\<lambda>pattern. Inl (Err ''read error'')) empty_Manifests =
       ((False, Some (Err ''read error'')), empty_Manifests)"
    by simp
  from Load_tells_absence_from_malformed
         [of "\<lambda>pattern. Inr [\<lparr>Filename = ''manifests/cluster-config.yaml'', Data = ''garbage''\<rparr>]"
             "Err ''x''" sample_ext empty_Manifests
             "[\<lparr>Filename = ''manifests/cluster-config.yaml'', Data = ''garbage''\<rparr>]"
             "\<lparr>Filename = ''manifests/cluster-config.yaml'', Data = ''garbage''\<rparr>"]
  have 3: "Load sample_ext
         (\<lambda>pattern. Inr [\<lparr>Filename = ''manifests/cluster-config.yaml'', Data = ''garbage''\<rparr>])
         empty_Manifests =
       ((False, Some (Wrap (Err ''yaml: unmarshal error'') ''failed to unmarshal cluster-config.yaml'')),
        empty_Manifests)"
    using u by simp
  from 1 2 3 show ?thesis by simp
qed

subsection \<open>Load restores what Generate produced\<close>

text \<open>
  Claim C2. Let \<open>Generate\<close> succeed, let its files have distinct paths (they are a set
  of files on disk), let the fetcher return exactly these files for the pattern
  \<open>manifests/*\<close>, in any order, and let the parser accept what the serializer of the
  status record produces. Then \<open>Load\<close> returns found and no error, and its file list
  is the list that \<open>Generate\<close> produced: the same paths and contents in the same
  sorted order, taken from the fetched files and not derived again. The list holds
  the file \<open>manifests/cluster-config.yaml\<close>.
\<close>

theorem Load_restores_generated_files:
  assumes "Generate x h m0 dependencies = (Returned None, m1)"
    and "FetchByPattern ''manifests/*'' = Inr fs"
    and "mset fs = mset (Files m1)"
    and "distinct (map Filename (Files m1))"
    and "\<forall>object d. yaml_Marshal_object x object = Inr d \<longrightarrow>
           (\<exists>object'. yaml_Unmarshal x d zero_configurationObject = Inr object')"
  shows "\<exists>object'.
           Load x FetchByPattern m = ((True, None), \<lparr>KubeSysConfig = Some object', FileList = Files m1\<rparr>)
         \<and> Files (snd (Load x FetchByPattern m)) = Files m1
         \<and> sorted (map Filename (Files m1))
         \<and> ''manifests/cluster-config.yaml'' \<in> Filename ` set (Files m1)"
proof -
  from status_in_generated [OF assms(1)] obtain d object where
    st: "\<lparr>Filename = kubeSysConfigPath, Data = d\<rparr> \<in> set (FileList m1)"
    and ma: "yaml_Marshal_object x object = Inr d"
    by blast
  let ?status = "\<lparr>Filename = ''manifests/cluster-config.yaml'', Data = d\<rparr>"
  from st have st': "?status \<in> set (Files m1)" by (simp add: paths Files_def)
  from assms(3) have sets: "set fs = set (Files m1)" by (rule mset_eq_setD)
  from assms(3) have "mset (map Filename fs) = mset (map Filename (Files m1))"
    by (metis mset_map)
  with assms(4) have dist: "distinct (map Filename fs)"
    by (metis distinct_count_atmost_1 set_mset_mset)
  have "filter (\<lambda>g. Filename g = Filename ?status) fs = [?status]"
    using dist st' sets by (intro filter_distinct_key) simp_all
  then have single: "filter (\<lambda>g. Filename g = ''manifests/cluster-config.yaml'') fs = [?status]"
    by simp
  from ma assms(5) obtain object' where
    un: "yaml_Unmarshal x d zero_configurationObject = Inr object'" by blast
  have sorted: "sorted (map Filename (Files m1))"
    using Generate_Returned_NoneD [OF assms(1)] by (auto simp: Files_def SortFiles_sorted)
  have "SortFiles fs = SortFiles (Files m1)"
    using assms(3) dist by (rule SortFiles_distinct)
  also have "\<dots> = Files m1"
    using sorted by (simp add: SortFiles_def sort_key_id_if_sorted)
  finally have sf: "SortFiles fs = Files m1" .
  have l: "Load x FetchByPattern m = ((True, None), \<lparr>KubeSysConfig = Some object', FileList = Files m1\<rparr>)"
    using Load_single [where FetchByPattern = FetchByPattern and x = x and m = m,
            OF assms(2) single] un sf
    by simp
  then have "Files (snd (Load x FetchByPattern m)) = Files m1" by (simp add: Files_def)
  moreover have "''manifests/cluster-config.yaml'' \<in> Filename ` set (Files m1)"
    using st' by force
  ultimately show ?thesis using l sorted by blast
qed

theorem Load_restores_generated_files_witness:
  "fst (Load sample_ext sample_fetch empty_Manifests) = (True, None)
   \<and> Files (snd (Load sample_ext sample_fetch empty_Manifests)) = sample_generated
   \<and> map Filename (Files (snd (Load sample_ext sample_fetch empty_Manifests))) =
       [''manifests/cluster-config.yaml'', ''manifests/cluster-dns-02-config.yml'',
        ''manifests/cluster-ingress-02-config.yml'', ''manifests/cvo-overrides.yaml'']"
proof -
  have files: "Files (snd (Generate sample_ext sample_store empty_Manifests
                 (sample_dependencies ''{{.CVOClusterID}}''))) = sample_generated"
    by (simp add: Files_def sample_generated_def)
  have ms: "mset (rev sample_generated) = mset (Files (snd (Generate sample_ext sample_store
                 empty_Manifests (sample_dependencies ''{{.CVOClusterID}}''))))"
    by (simp add: files)
  have di: "distinct (map Filename (Files (snd (Generate sample_ext sample_store
                 empty_Manifests (sample_dependencies ''{{.CVOClusterID}}'')))))"
    by (simp add: files sample_generated_eq)
  have rt: "\<forall>object d. yaml_Marshal_object sample_ext object = Inr d \<longrightarrow>
           (\<exists>object'. yaml_Unmarshal sample_ext d zero_configurationObject = Inr object')"
    by (auto simp: sample_ext_def)
  from Load_restores_generated_files
         [where FetchByPattern = sample_fetch and m = empty_Manifests,
          OF sample_generate sample_fetch_eq ms di rt]
  show ?thesis
    by (auto simp: files sample_generated_eq)
qed

end
